theory Spec2Isabelle
  imports Complex_Main
begin

section \<open>Python values and strings\<close>

text \<open>
  JSON-like values: what the task, context and result dictionaries of the backend hold.
  Dictionaries are association lists in insertion order.
\<close>

datatype json =
    JNull
  | JBool bool
  | JInt int
  | JFloat real
  | JStr string
  | JList "json list"
  | JDict "(string \<times> json) list"

type_synonym dict = "(string \<times> json) list"

text \<open>Exceptions of the Python code, as values.\<close>

datatype exn =
    NameError string
  | UnboundLocalError string
  | ValueError string
  | ValidationError string
  | HTTPError string
  | JSONDecodeError string
  | KeyError string
  | AttributeError string
  | TypeError string
  | IntegrityError string
  | RuntimeError string

text \<open>\<open>try: body except Exception as e: handler e\<close>\<close>

definition try_except :: "(exn + 'a) \<Rightarrow> (exn \<Rightarrow> exn + 'a) \<Rightarrow> exn + 'a" where
  "try_except body handler = (case body of Inl e \<Rightarrow> handler e | Inr v \<Rightarrow> Inr v)"

text \<open>
  A Python \<open>str\<close> is modelled as a list of characters with code points below 256.
  On these, \<open>str.lower\<close> moves \<open>A..Z\<close> and the Latin-1 capitals
  (\<open>0xC0..0xDE\<close> without the multiplication sign \<open>0xD7\<close>) up by 32 and keeps every
  other character.
\<close>

definition lower_char :: "char \<Rightarrow> char" where
  "lower_char c =
     (let n = (of_char c :: nat)
      in if (65 \<le> n \<and> n \<le> 90) \<or> (192 \<le> n \<and> n \<le> 222 \<and> n \<noteq> 215)
         then char_of (n + 32) else c)"

definition lower :: "string \<Rightarrow> string" where
  "lower s = map lower_char s"

text \<open>\<open>s.startswith(p)\<close> and the substring test \<open>sub in s\<close>.\<close>

fun startswith :: "string \<Rightarrow> string \<Rightarrow> bool" where
  "startswith s [] = True"
| "startswith [] (p # ps) = False"
| "startswith (c # s) (p # ps) = (c = p \<and> startswith s ps)"

fun py_in :: "string \<Rightarrow> string \<Rightarrow> bool" where
  "py_in sub [] = (sub = [])"
| "py_in sub (c # s) = (startswith (c # s) sub \<or> py_in sub s)"

text \<open>\<open>any(keyword in text for keyword in keywords)\<close>\<close>

definition any_keyword_in :: "string list \<Rightarrow> string \<Rightarrow> bool" where
  "any_keyword_in keywords s = list_ex (\<lambda>keyword. py_in keyword s) keywords"

text \<open>
  What the specification means by a message containing a keyword case-insensitively:
  some stretch of the message reads as the keyword once lowered.
\<close>

definition contains_ci :: "string \<Rightarrow> string \<Rightarrow> bool" where
  "contains_ci msg keyword = (\<exists>ps w ss. msg = ps @ w @ ss \<and> lower w = keyword)"

section \<open>Intent schema and the business-rule pass\<close>

record IntentRequest =
  user_message :: string
  request_context :: "dict option"

record IntentResult =
  intent :: string
  confidence :: real
  entities :: "dict option"
  command :: "string option"
  parameters :: "dict option"
  requires_approval :: bool
  estimated_cost :: "real option"
  risk_level :: "string option"

text \<open>Truth value of an optional number and of an optional string in a condition.\<close>

definition truthy_num :: "real option \<Rightarrow> bool" where
  "truthy_num v = (case v of None \<Rightarrow> False | Some x \<Rightarrow> x \<noteq> 0)"

definition truthy_str :: "string option \<Rightarrow> bool" where
  "truthy_str v = (case v of None \<Rightarrow> False | Some s \<Rightarrow> s \<noteq> [])"

definition spending_keywords :: "string list" where
  "spending_keywords =
     [''pay'', ''cost'', ''buy'', ''purchase'', ''spend'', ''price'', ''fee'', ''charge'']"

definition destructive_keywords :: "string list" where
  "destructive_keywords =
     [''delete'', ''remove'', ''destroy'', ''drop'', ''kill'', ''terminate'']"

text \<open>
  Rule 1 of \<open>apply_business_rules\<close> only writes a log line; rules 2 to 4 update the
  result in the order of the source.
\<close>

definition rule_spending_cost :: "IntentResult \<Rightarrow> IntentResult" where
  "rule_spending_cost result =
     (if truthy_num (estimated_cost result) \<and> the (estimated_cost result) > 0
      then (let r = result\<lparr>requires_approval := True\<rparr>
            in if \<not> truthy_str (risk_level r) \<or> risk_level r = Some ''low''
               then r\<lparr>risk_level := Some ''medium''\<rparr> else r)
      else result)"

definition rule_spending_keywords :: "string \<Rightarrow> IntentResult \<Rightarrow> IntentResult" where
  "rule_spending_keywords message result =
     (if any_keyword_in spending_keywords (lower message)
      then (let r = result\<lparr>requires_approval := True\<rparr>
            in if \<not> truthy_num (estimated_cost r)
               then r\<lparr>estimated_cost := Some 0\<rparr> else r)
      else result)"

definition rule_destructive :: "string \<Rightarrow> IntentResult \<Rightarrow> IntentResult" where
  "rule_destructive message result =
     (if any_keyword_in destructive_keywords (lower message)
      then (let r = result\<lparr>requires_approval := True\<rparr>
            in if \<not> truthy_str (risk_level r) \<or> risk_level r \<in> set [Some ''low'', Some ''medium'']
               then r\<lparr>risk_level := Some ''high''\<rparr> else r)
      else result)"

definition apply_business_rules :: "IntentResult \<Rightarrow> string \<Rightarrow> IntentResult" where
  "apply_business_rules result message =
     rule_destructive message
       (rule_spending_keywords message (rule_spending_cost result))"

text \<open>The ordering \<open>low < medium < high < critical\<close> of the documented risk levels.\<close>

definition risk_rank :: "string \<Rightarrow> nat option" where
  "risk_rank l =
     (if l = ''low'' then Some 0
      else if l = ''medium'' then Some 1
      else if l = ''high'' then Some 2
      else if l = ''critical'' then Some 3
      else None)"

text \<open>The result returned when both inference backends have failed.\<close>

definition degraded_result :: IntentResult where
  "degraded_result =
     \<lparr>intent = ''unknown'', confidence = 0, entities = None, command = None,
      parameters = None, requires_approval = True, estimated_cost = None,
      risk_level = Some ''high''\<rparr>"

text \<open>
  \<open>parse_intent\<close>: the two backends are parameters giving the outcome of
  \<open>parse_intent_groq\<close> and \<open>parse_intent_gemini\<close> on a message and context, an
  exception or a validated result.
\<close>

type_synonym backend = "string \<Rightarrow> dict option \<Rightarrow> exn + IntentResult"

definition parse_intent :: "backend \<Rightarrow> backend \<Rightarrow> IntentRequest \<Rightarrow> exn + IntentResult" where
  "parse_intent groq gemini request =
     (let msg = user_message request; ctx = request_context request
      in try_except
           (case groq msg ctx of
              Inl e \<Rightarrow> Inl e
            | Inr result \<Rightarrow> Inr (apply_business_rules result msg))
           (\<lambda>groq_error.
              try_except
                (case gemini msg ctx of
                   Inl e \<Rightarrow> Inl e
                 | Inr result \<Rightarrow> Inr (apply_business_rules result msg))
                (\<lambda>gemini_error. Inr degraded_result)))"

text \<open>Sample classifier outputs.\<close>

definition sample_intent :: IntentResult where
  "sample_intent =
     \<lparr>intent = ''execute_command'', confidence = 0.9, entities = None,
      command = Some ''cleanup'', parameters = None, requires_approval = True,
      estimated_cost = None, risk_level = Some ''medium''\<rparr>"

definition low_intent :: IntentResult where
  "low_intent =
     \<lparr>intent = ''query_status'', confidence = 0.95, entities = None, command = None,
      parameters = None, requires_approval = False, estimated_cost = None,
      risk_level = Some ''low''\<rparr>"

definition capital_low_intent :: IntentResult where
  "capital_low_intent =
     \<lparr>intent = ''delete_account'', confidence = 0.95, entities = None, command = None,
      parameters = None, requires_approval = False, estimated_cost = None,
      risk_level = Some ''Low''\<rparr>"

section \<open>Budget service\<close>

datatype TransactionStatus =
  TX_PENDING | TX_PROCESSING | TX_SUCCESS | TX_FAILED | TX_ROLLED_BACK

record date =
  year :: nat
  month :: nat
  day :: nat

text \<open>
  A transaction row: \<open>tx_created_on\<close> is \<open>date(created_at)\<close>, and a cost of
  \<open>None\<close> is SQL NULL. Identifiers and times are texts.
\<close>

datatype TransactionType = TT_COMMAND | TT_QUERY | TT_NOTIFICATION | TT_SYSTEM

record Transaction =
  tx_id :: string
  transaction_type :: TransactionType
  tx_status :: TransactionStatus
  tx_task_id :: "string option"
  request_data :: "dict option"
  response_data :: "dict option"
  tx_cost :: "real option"
  tx_created_by :: string
  tx_started_at :: "string option"
  tx_completed_at :: "string option"
  tx_created_on :: date

text \<open>
  Python floats are IEEE binary64 numbers: a finite value, an infinity or NaN. A finite
  value is carried as the real number it denotes; the sign of zero, which no comparison
  sees, is not kept.
\<close>

datatype float64 = Finite real | PosInf | NegInf | NaN

text \<open>
  \<open>binary_exponent a\<close> is the integer \<open>e\<close> with \<open>2^e \<le> a < 2^(e+1)\<close> for a positive
  \<open>a\<close>, searched by halving or doubling at most 1100 times, which covers the range of
  binary64.
\<close>

fun halvings :: "nat \<Rightarrow> real \<Rightarrow> int" where
  "halvings 0 a = 0"
| "halvings (Suc k) a = (if a < 2 then 0 else 1 + halvings k (a / 2))"

fun doublings :: "nat \<Rightarrow> real \<Rightarrow> int" where
  "doublings 0 a = 0"
| "doublings (Suc k) a = (if 1 \<le> a then 0 else doublings k (a * 2) - 1)"

definition binary_exponent :: "real \<Rightarrow> int" where
  "binary_exponent a = (if 1 \<le> a then halvings 1100 a else doublings 1100 a)"

definition pow2 :: "int \<Rightarrow> real" where
  "pow2 k = (if 0 \<le> k then 2 ^ nat k else 1 / 2 ^ nat (- k))"

definition round_half_even :: "real \<Rightarrow> int" where
  "round_half_even y =
     (let f = \<lfloor>y\<rfloor>; d = y - of_int f
      in if d < 1 / 2 then f else if 1 / 2 < d then f + 1 else if even f then f else f + 1)"

text \<open>
  \<open>round64\<close>: the binary64 value nearest to a real number, ties to the even
  significand. The significand has 53 bits, the least exponent is -1022 (below it the
  spacing stays \<open>2^-1074\<close>), and a rounded value of \<open>2^1024\<close> or more is an infinity:
  that is an exponent above 1023, or the exponent 1023 with a significand rounded up
  to \<open>2^53\<close>.
\<close>

definition round64 :: "real \<Rightarrow> float64" where
  "round64 x =
     (if x = 0 then Finite 0
      else
        (let a = \<bar>x\<bar>;
             e = max (binary_exponent a) (- 1022);
             q = pow2 (e - 52);
             n = round_half_even (a / q)
         in if 1024 \<le> e \<or> (e = 1023 \<and> 2 ^ 53 \<le> n)
            then (if 0 < x then PosInf else NegInf)
            else Finite (if 0 < x then of_int n * q else - (of_int n * q))))"

text \<open>Float addition \<open>x + y\<close> and the comparison \<open>x > y\<close>.\<close>

fun fadd :: "float64 \<Rightarrow> float64 \<Rightarrow> float64" where
  "fadd (Finite a) (Finite b) = round64 (a + b)"
| "fadd NaN y = NaN"
| "fadd x NaN = NaN"
| "fadd PosInf NegInf = NaN"
| "fadd NegInf PosInf = NaN"
| "fadd PosInf y = PosInf"
| "fadd NegInf y = NegInf"
| "fadd (Finite a) y = y"

fun fgt :: "float64 \<Rightarrow> float64 \<Rightarrow> bool" where
  "fgt (Finite a) (Finite b) = (b < a)"
| "fgt NaN y = False"
| "fgt x NaN = False"
| "fgt PosInf PosInf = False"
| "fgt PosInf y = True"
| "fgt NegInf y = False"
| "fgt (Finite a) NegInf = True"
| "fgt (Finite a) PosInf = False"

record Settings =
  DAILY_BUDGET_LIMIT :: float64
  MONTHLY_BUDGET_LIMIT :: float64

definition default_settings :: Settings where
  "default_settings =
     \<lparr>DAILY_BUDGET_LIMIT = Finite 1000, MONTHLY_BUDGET_LIMIT = Finite 30000\<rparr>"

definition date_le :: "date \<Rightarrow> date \<Rightarrow> bool" where
  "date_le a b =
     (year a < year b \<or>
      (year a = year b \<and> (month a < month b \<or> (month a = month b \<and> day a \<le> day b))))"

text \<open>
  \<open>get_spending\<close>: \<open>SUM(cost)\<close> over the rows of the user with status success and
  creation date in the closed range. The database adds the decimal costs exactly; NULL
  costs do not count, and the sum of no rows is coalesced to 0. \<open>float(total)\<close> then
  converts the decimal sum to the nearest float.
\<close>

definition in_window :: "string \<Rightarrow> date \<Rightarrow> date \<Rightarrow> Transaction \<Rightarrow> bool" where
  "in_window user_id start_date end_date t =
     (tx_created_by t = user_id \<and> tx_status t = TX_SUCCESS \<and>
      date_le start_date (tx_created_on t) \<and> date_le (tx_created_on t) end_date)"

definition get_spending :: "Transaction list \<Rightarrow> string \<Rightarrow> date \<Rightarrow> date \<Rightarrow> float64" where
  "get_spending db user_id start_date end_date =
     round64
       (sum_list (map (\<lambda>t. case tx_cost t of None \<Rightarrow> 0 | Some c \<Rightarrow> c)
                    (filter (in_window user_id start_date end_date) db)))"

text \<open>The two messages of \<open>check_budget\<close>, before formatting.\<close>

datatype budget_reason =
    Budget_limit_exceeded float64 float64 float64
  | Invalid_period string

definition check_budget ::
  "Settings \<Rightarrow> Transaction list \<Rightarrow> date \<Rightarrow> string \<Rightarrow> float64 \<Rightarrow> string
     \<Rightarrow> bool \<times> budget_reason option" where
  "check_budget settings db today user_id amount period =
     (if period = ''daily'' then
        (let limit = DAILY_BUDGET_LIMIT settings;
             current_spending = get_spending db user_id today today
         in if fgt (fadd current_spending amount) limit
            then (False, Some (Budget_limit_exceeded current_spending amount limit))
            else (True, None))
      else if period = ''monthly'' then
        (let limit = MONTHLY_BUDGET_LIMIT settings;
             current_spending = get_spending db user_id (today\<lparr>day := 1\<rparr>) today
         in if fgt (fadd current_spending amount) limit
            then (False, Some (Budget_limit_exceeded current_spending amount limit))
            else (True, None))
      else (False, Some (Invalid_period period)))"

text \<open>
  The spending as the specification words it: the costs of the successful transactions
  of the user, of today only for the day, and from the first of the month through today
  for the month.
\<close>

definition cost_of :: "Transaction \<Rightarrow> real" where
  "cost_of t = (case tx_cost t of None \<Rightarrow> 0 | Some c \<Rightarrow> c)"

definition spent_today :: "Transaction list \<Rightarrow> string \<Rightarrow> date \<Rightarrow> real" where
  "spent_today db user_id today =
     (\<Sum>t\<leftarrow>db. if tx_created_by t = user_id \<and> tx_status t = TX_SUCCESS
                    \<and> tx_created_on t = today
                 then cost_of t else 0)"

definition spent_this_month :: "Transaction list \<Rightarrow> string \<Rightarrow> date \<Rightarrow> real" where
  "spent_this_month db user_id today =
     (\<Sum>t\<leftarrow>db. if tx_created_by t = user_id \<and> tx_status t = TX_SUCCESS
                    \<and> year (tx_created_on t) = year today
                    \<and> month (tx_created_on t) = month today
                    \<and> 1 \<le> day (tx_created_on t) \<and> day (tx_created_on t) \<le> day today
                 then cost_of t else 0)"

text \<open>
  A ledger on 14 March 2025: user u1 has spent 950.00 today; the other rows are of
  another user, not successful, of other days, or without a cost.
\<close>

definition sample_today :: date where
  "sample_today = \<lparr>year = 2025, month = 3, day = 14\<rparr>"

definition ledger_row ::
  "string \<Rightarrow> string \<Rightarrow> TransactionStatus \<Rightarrow> date \<Rightarrow> real option \<Rightarrow> Transaction" where
  "ledger_row i user_id s d c =
     \<lparr>tx_id = i, transaction_type = TT_COMMAND, tx_status = s, tx_task_id = None,
      request_data = None, response_data = None, tx_cost = c, tx_created_by = user_id,
      tx_started_at = None, tx_completed_at = None, tx_created_on = d\<rparr>"

definition sample_ledger :: "Transaction list" where
  "sample_ledger =
     [ledger_row ''tx1'' ''u1'' TX_SUCCESS sample_today (Some 900),
      ledger_row ''tx2'' ''u2'' TX_SUCCESS sample_today (Some 500),
      ledger_row ''tx3'' ''u1'' TX_FAILED sample_today (Some 300),
      ledger_row ''tx4'' ''u1'' TX_SUCCESS \<lparr>year = 2025, month = 3, day = 13\<rparr> (Some 400),
      ledger_row ''tx5'' ''u1'' TX_SUCCESS \<lparr>year = 2025, month = 3, day = 15\<rparr> (Some 70),
      ledger_row ''tx6'' ''u1'' TX_SUCCESS \<lparr>year = 2025, month = 2, day = 14\<rparr> (Some 60),
      ledger_row ''tx7'' ''u1'' TX_SUCCESS sample_today None,
      ledger_row ''tx8'' ''u1'' TX_SUCCESS sample_today (Some 50)]"

text \<open>An amount just above 50 that is a binary64 value.\<close>

definition tiny_excess_amount :: real where
  "tiny_excess_amount = 50 + 1 / 2 ^ 45"

section \<open>Decomposition of an intent into subtasks\<close>

text \<open>The string methods that \<open>_decompose_intent\<close> uses.\<close>

definition is_space :: "char \<Rightarrow> bool" where
  "is_space c =
     (let n = (of_char c :: nat)
      in (9 \<le> n \<and> n \<le> 13) \<or> (28 \<le> n \<and> n \<le> 32) \<or> n = 133 \<or> n = 160)"






text \<open>
  A subtask specification. \<open>spec_parameters\<close> is \<open>None\<close> when the dictionary has no
  \<open>parameters\<close> key; \<open>agent_type\<close> is \<open>None\<close> for Python's \<open>None\<close>.
\<close>

record SubtaskSpec =
  title :: string
  description :: string
  agent_type :: "string option"
  dependencies :: "nat list"
  spec_parameters :: "dict option"







section \<open>Agent capability layer\<close>

text \<open>\<open>str(e)\<close> of an exception; the texts of the name errors are those of CPython 3.11.\<close>

fun str_exn :: "exn \<Rightarrow> string" where
  "str_exn (NameError n) = ''name '' @ [CHR 0x27] @ n @ [CHR 0x27] @ '' is not defined''"
| "str_exn (UnboundLocalError n) =
     ''cannot access local variable '' @ [CHR 0x27] @ n @ [CHR 0x27]
       @ '' where it is not associated with a value''"
| "str_exn (ValueError m) = m"
| "str_exn (ValidationError m) = m"
| "str_exn (HTTPError m) = m"
| "str_exn (JSONDecodeError m) = m"
| "str_exn (KeyError m) = m"
| "str_exn (AttributeError m) = m"
| "str_exn (TypeError m) = m"
| "str_exn (IntegrityError m) = m"
| "str_exn (RuntimeError m) = m"

text \<open>Truth value of a JSON-like value, and \<open>d.get(k, default)\<close>.\<close>

fun truthy :: "json \<Rightarrow> bool" where
  "truthy JNull = False"
| "truthy (JBool b) = b"
| "truthy (JInt n) = (n \<noteq> 0)"
| "truthy (JFloat x) = (x \<noteq> 0)"
| "truthy (JStr s) = (s \<noteq> [])"
| "truthy (JList xs) = (xs \<noteq> [])"
| "truthy (JDict d) = (d \<noteq> [])"

definition dict_get :: "dict \<Rightarrow> string \<Rightarrow> json \<Rightarrow> json" where
  "dict_get d k dflt = (case map_of d k of None \<Rightarrow> dflt | Some v \<Rightarrow> v)"

text \<open>\<open>d[k] = v\<close>: an existing key keeps its place, a new key goes to the end.\<close>

fun dict_set :: "('k \<times> 'v) list \<Rightarrow> 'k \<Rightarrow> 'v \<Rightarrow> ('k \<times> 'v) list" where
  "dict_set [] k v = [(k, v)]"
| "dict_set ((k', v') # d) k v = (if k' = k then (k, v) # d else (k', v') # dict_set d k v)"

record AgentResult =
  success :: bool
  data :: dict
  error :: "string option"
  execution_time_ms :: "real option"
  metadata :: dict
  sources :: "json list"
  result_requires_approval :: bool
  result_estimated_cost :: "real option"
  result_risk_level :: "string option"

text \<open>\<open>AgentResult(success=False, error=..., execution_time_ms=...)\<close> with the defaults.\<close>

definition failed_result :: "string \<Rightarrow> real option \<Rightarrow> AgentResult" where
  "failed_result msg ms =
     \<lparr>success = False, data = [], error = Some msg, execution_time_ms = ms, metadata = [],
      sources = [], result_requires_approval = False, result_estimated_cost = None,
      result_risk_level = None\<rparr>"

text \<open>The dictionary returned by \<open>estimate_cost_and_risk\<close>, with its three fixed keys.\<close>

record Estimation =
  cost :: real
  est_risk_level :: string
  est_requires_approval :: bool

text \<open>
  An agent is the record of its overridable methods; \<open>execute\<close> does network I/O and is
  given by its outcome.
\<close>

record Agent =
  validate_input :: "dict \<Rightarrow> dict option \<Rightarrow> string option"
  estimate_cost_and_risk :: "dict \<Rightarrow> dict option \<Rightarrow> Estimation"
  execute :: "dict \<Rightarrow> dict option \<Rightarrow> exn + AgentResult"

text \<open>\<open>BaseAgent.validate_input\<close> and \<open>BaseAgent.estimate_cost_and_risk\<close>.\<close>

definition base_validate_input :: "dict \<Rightarrow> dict option \<Rightarrow> string option" where
  "base_validate_input task ctx = (if task = [] then Some ''Task is required'' else None)"

definition base_estimate_cost_and_risk :: "dict \<Rightarrow> dict option \<Rightarrow> Estimation" where
  "base_estimate_cost_and_risk task ctx =
     \<lparr>cost = 0, est_risk_level = ''low'', est_requires_approval = False\<rparr>"

text \<open>
  \<open>BaseAgent.run\<close>. \<open>elapsed\<close> is the measured time in milliseconds.
\<close>

definition run :: "Agent \<Rightarrow> real \<Rightarrow> bool \<Rightarrow> dict \<Rightarrow> dict option \<Rightarrow> exn + AgentResult" where
  "run agent elapsed validate task ctx =
     try_except
       (let validation_error = (if validate then validate_input agent task ctx else None)
        in if validate \<and> truthy_str validation_error
           then Inr (failed_result (''Validation failed: '' @ the validation_error) (Some 0))
           else
             (let estimation = estimate_cost_and_risk agent task ctx
              in case execute agent task ctx of
                   Inl e \<Rightarrow> Inl e
                 | Inr res \<Rightarrow>
                     Inr (res\<lparr>execution_time_ms := Some elapsed,
                               result_estimated_cost := Some (cost estimation),
                               result_risk_level := Some (est_risk_level estimation),
                               result_requires_approval := est_requires_approval estimation\<rparr>)))
       (\<lambda>e. Inr (failed_result (''Agent execution failed: '' @ str_exn e) (Some elapsed)))"

text \<open>
  The Communication agent. \<open>str_of\<close> is Python's \<open>str\<close> on a JSON-like value, used
  to format the rejected action.
\<close>

definition comm_estimate_cost_and_risk :: "dict \<Rightarrow> dict option \<Rightarrow> Estimation" where
  "comm_estimate_cost_and_risk task ctx =
     (let action = dict_get task ''action'' (JStr ''draft'')
      in if action = JStr ''send''
         then \<lparr>cost = 0, est_risk_level = ''medium'', est_requires_approval = True\<rparr>
         else \<lparr>cost = 0, est_risk_level = ''low'', est_requires_approval = False\<rparr>)"

definition comm_validate_input :: "(json \<Rightarrow> string) \<Rightarrow> dict \<Rightarrow> dict option \<Rightarrow> string option" where
  "comm_validate_input str_of task ctx =
     (let action = dict_get task ''action'' JNull
      in if action \<notin> set [JStr ''draft'', JStr ''send'']
         then Some (''Action must be '' @ [CHR 0x27] @ ''draft'' @ [CHR 0x27] @ '' or ''
                    @ [CHR 0x27] @ ''send'' @ [CHR 0x27] @ '', got: '' @ str_of action)
         else if action = JStr ''send'' \<and> \<not> truthy (dict_get task ''to'' JNull)
         then Some ''Recipient email (to) is required for sending''
         else None)"

definition CommunicationAgent ::
  "(json \<Rightarrow> string) \<Rightarrow> (dict \<Rightarrow> dict option \<Rightarrow> exn + AgentResult) \<Rightarrow> Agent" where
  "CommunicationAgent str_of exec =
     \<lparr>validate_input = comm_validate_input str_of,
      estimate_cost_and_risk = comm_estimate_cost_and_risk,
      execute = exec\<rparr>"

definition send_task :: dict where
  "send_task =
     [(''action'', JStr ''send''), (''to'', JStr ''bob@example.com''),
      (''subject'', JStr ''Hi''), (''body'', JStr ''Hello'')]"

definition sent_result :: AgentResult where
  "sent_result =
     \<lparr>success = True, data = [(''sent'', JBool True)], error = None,
      execution_time_ms = None, metadata = [], sources = [],
      result_requires_approval = False, result_estimated_cost = None,
      result_risk_level = None\<rparr>"

section \<open>Tasks\<close>

datatype TaskStatus = PENDING | IN_PROGRESS | COMPLETED | FAILED | CANCELLED

datatype TaskPriority = LOW | MEDIUM | HIGH | CRITICAL

fun status_value :: "TaskStatus \<Rightarrow> string" where
  "status_value PENDING = ''pending''"
| "status_value IN_PROGRESS = ''in_progress''"
| "status_value COMPLETED = ''completed''"
| "status_value FAILED = ''failed''"
| "status_value CANCELLED = ''cancelled''"

text \<open>The columns of a task row that the services write; identifiers and times are texts.\<close>

record Task =
  task_id :: string
  task_title :: string
  task_description :: string
  task_command :: "string option"
  task_parameters :: dict
  priority :: TaskPriority
  status :: TaskStatus
  created_by :: string
  assigned_agent_id :: "string option"
  result :: "dict option"
  error_message :: "string option"
  started_at :: "string option"
  completed_at :: "string option"

text \<open>
  The column \<open>command\<close> of the task table is declared \<open>nullable=False\<close>: a flush or
  commit that inserts a row without a command fails with an integrity error. The text of
  the database error is not modelled.
\<close>

definition insertable :: "Task \<Rightarrow> bool" where
  "insertable t = (task_command t \<noteq> None)"

definition not_null_violation :: exn where
  "not_null_violation = IntegrityError ''null value in column command of relation tasks''"

section \<open>Orchestrator: execution of the subtasks\<close>

text \<open>\<open>str(n)\<close> for a non-negative integer.\<close>

fun str_nat :: "nat \<Rightarrow> string" where
  "str_nat n =
     (if n < 10 then [char_of (48 + n)] else str_nat (n div 10) @ [char_of (48 + n mod 10)])"

declare str_nat.simps [simp del]

text \<open>Name of the Python type of a value, and \<open>v.get(k, default)\<close> on any value.\<close>

fun type_name :: "json \<Rightarrow> string" where
  "type_name JNull = ''NoneType''"
| "type_name (JBool b) = ''bool''"
| "type_name (JInt n) = ''int''"
| "type_name (JFloat x) = ''float''"
| "type_name (JStr s) = ''str''"
| "type_name (JList xs) = ''list''"
| "type_name (JDict d) = ''dict''"

fun py_get :: "json \<Rightarrow> string \<Rightarrow> json \<Rightarrow> exn + json" where
  "py_get (JDict d) k dflt = Inr (dict_get d k dflt)"
| "py_get v k dflt =
     Inl (AttributeError ([CHR 0x27] @ type_name v @ [CHR 0x27] @ '' object has no attribute ''
            @ [CHR 0x27] @ ''get'' @ [CHR 0x27]))"

text \<open>
  Step 4 of \<open>orchestrate\<close>: one pending task row per subtask specification. An entry of
  \<open>created_subtasks\<close> is the position written into the specification as its index,
  the row, and the specification. \<open>new_id\<close> gives the identifier drawn for position \<open>i\<close>.
\<close>

definition subtask_row ::
  "(nat \<Rightarrow> string) \<Rightarrow> string \<Rightarrow> string \<Rightarrow> nat \<Rightarrow> SubtaskSpec \<Rightarrow> Task" where
  "subtask_row new_id parent_id user_id i spec =
     \<lparr>task_id = new_id i, task_title = title spec, task_description = description spec,
      task_command = None,
      task_parameters = (case spec_parameters spec of None \<Rightarrow> [] | Some p \<Rightarrow> p),
      priority = MEDIUM, status = PENDING, created_by = user_id, assigned_agent_id = None,
      result = Some [(''parent_task_id'', JStr parent_id), (''subtask_index'', JInt (int i)),
                     (''dependencies'', JList (map (\<lambda>d. JInt (int d)) (dependencies spec))),
                     (''agent_type'', case agent_type spec of None \<Rightarrow> JNull | Some a \<Rightarrow> JStr a)],
      error_message = None, started_at = None, completed_at = None\<rparr>"

definition create_subtasks ::
  "(nat \<Rightarrow> string) \<Rightarrow> string \<Rightarrow> string \<Rightarrow> SubtaskSpec list
     \<Rightarrow> (nat \<times> Task \<times> SubtaskSpec) list" where
  "create_subtasks new_id parent_id user_id subtasks =
     map (\<lambda>(i, spec). (i, subtask_row new_id parent_id user_id i spec, spec))
       (enumerate 0 subtasks)"

text \<open>
  The state of the loop of step 5: the results by subtask index, the success flag, the
  positions for which \<open>execute_task\<close> was called, and the world that these calls act on.
\<close>

record 'w loop_state =
  executed_results :: "(nat \<times> json) list"
  all_succeeded :: bool
  invoked :: "nat list"
  loop_world :: 'w

definition initial_loop_state :: "'w \<Rightarrow> 'w loop_state" where
  "initial_loop_state w =
     \<lparr>executed_results = [], all_succeeded = True, invoked = [], loop_world = w\<rparr>"

text \<open>
  The dependency check: \<open>None\<close> when some dependency index has no result yet
  (\<open>dependencies_met = False\<close>), otherwise the collected \<open>dependency_results\<close>.
\<close>

fun collect_dependency_results :: "(nat \<times> json) list \<Rightarrow> nat list \<Rightarrow> dict \<Rightarrow> dict option" where
  "collect_dependency_results executed [] acc = Some acc"
| "collect_dependency_results executed (dep_index # rest) acc =
     (case map_of executed dep_index of
        None \<Rightarrow> None
      | Some r \<Rightarrow> collect_dependency_results executed rest (dict_set acc (str_nat dep_index) r))"

text \<open>The entry stored in \<open>executed_results\<close> for an executed subtask.\<close>

definition result_entry :: "Task \<Rightarrow> exn + json" where
  "result_entry executed_subtask =
     (let res = (case result executed_subtask of None \<Rightarrow> [] | Some r \<Rightarrow> r);
          data_v = (if res \<noteq> [] then dict_get res ''agent_result'' (JDict []) else JDict [])
      in case (if res \<noteq> [] then py_get (dict_get res ''agent_result'' (JDict [])) ''summary'' (JStr [])
               else Inr (JStr [])) of
           Inl e \<Rightarrow> Inl e
         | Inr summary \<Rightarrow>
             Inr (JDict [(''status'', JStr (status_value (status executed_subtask))),
                         (''result'', case result executed_subtask of None \<Rightarrow> JNull | Some r \<Rightarrow> JDict r),
                         (''data'', data_v),
                         (''summary'', summary)]))"

text \<open>
  One iteration of the loop. \<open>execute_task i message ctx w\<close> is the call
  \<open>TaskExecutor.execute_task(db, user_id, message, ctx)\<close> made for the subtask at
  position \<open>i\<close> in the world \<open>w\<close>: it gives an exception or the returned task, and
  the world as the call leaves it.
\<close>

definition run_subtask ::
  "(nat \<Rightarrow> string \<Rightarrow> dict \<Rightarrow> 'w \<Rightarrow> (exn + Task) \<times> 'w) \<Rightarrow> dict option \<Rightarrow> string
     \<Rightarrow> 'w loop_state \<Rightarrow> nat \<Rightarrow> Task \<Rightarrow> SubtaskSpec \<Rightarrow> Task \<times> 'w loop_state" where
  "run_subtask execute_task ctx parent_id st i subtask spec =
     (case collect_dependency_results (executed_results st) (dependencies spec) [] of
        None \<Rightarrow>
          (subtask\<lparr>status := FAILED, error_message := Some ''Dependencies not met''\<rparr>,
           st\<lparr>all_succeeded := False\<rparr>)
      | Some dependency_results \<Rightarrow>
          (let subtask_context =
                 dict_set
                   (dict_set (case ctx of None \<Rightarrow> [] | Some c \<Rightarrow> c)
                      ''dependency_results'' (JDict dependency_results))
                   ''parent_task_id'' (JStr parent_id)
           in (case execute_task i (description spec) subtask_context (loop_world st) of
                 (outcome, w') \<Rightarrow>
                   (let st1 = st\<lparr>invoked := invoked st @ [i], loop_world := w'\<rparr>
                    in (case outcome of
                          Inl e \<Rightarrow>
                            (subtask\<lparr>status := FAILED, error_message := Some (str_exn e)\<rparr>,
                             st1\<lparr>all_succeeded := False\<rparr>)
                        | Inr executed_subtask \<Rightarrow>
                            (let updated =
                                   subtask\<lparr>status := status executed_subtask,
                                           result := result executed_subtask,
                                           started_at := started_at executed_subtask,
                                           completed_at := completed_at executed_subtask,
                                           error_message := error_message executed_subtask\<rparr>
                             in (case result_entry executed_subtask of
                                   Inl e \<Rightarrow>
                                     (updated\<lparr>status := FAILED,
                                              error_message := Some (str_exn e)\<rparr>,
                                      st1\<lparr>all_succeeded := False\<rparr>)
                                 | Inr entry \<Rightarrow>
                                     (updated,
                                      st1\<lparr>executed_results :=
                                            dict_set (executed_results st1) i entry,
                                          all_succeeded :=
                                            (all_succeeded st1
                                             \<and> status executed_subtask = COMPLETED)\<rparr>))))))))"

fun run_subtasks ::
  "(nat \<Rightarrow> string \<Rightarrow> dict \<Rightarrow> 'w \<Rightarrow> (exn + Task) \<times> 'w) \<Rightarrow> dict option \<Rightarrow> string
     \<Rightarrow> 'w loop_state \<Rightarrow> (nat \<times> Task \<times> SubtaskSpec) list \<Rightarrow> Task list \<times> 'w loop_state" where
  "run_subtasks execute_task ctx parent_id st [] = ([], st)"
| "run_subtasks execute_task ctx parent_id st ((i, subtask, spec) # rest) =
     (case run_subtask execute_task ctx parent_id st i subtask spec of
        (subtask', st') \<Rightarrow>
          (case run_subtasks execute_task ctx parent_id st' rest of
             (rows, st'') \<Rightarrow> (subtask' # rows, st'')))"


section \<open>Policy service: the error sanitizer\<close>

text \<open>
  The four substitutions of \<open>sanitize_error_message\<close> are regular-expression
  replacements. Each pattern is modelled by a matcher that, at a position of the text,
  gives the length of the match that Python's backtracking search finds there and the
  replacement text; none of the patterns matches the empty string. \<open>sub_scan\<close> is
  \<open>re.sub\<close>: it tries the positions from the left, replaces a match and goes on after
  it. The matcher sees the character before the position, for \<open>\b\<close>.
\<close>

fun sub_scan ::
  "(char option \<Rightarrow> string \<Rightarrow> (nat \<times> string) option) \<Rightarrow> char option \<Rightarrow> nat \<Rightarrow> string
     \<Rightarrow> string" where
  "sub_scan m prev skip [] = []"
| "sub_scan m prev (Suc k) (c # s) = sub_scan m (Some c) k s"
| "sub_scan m prev 0 (c # s) =
     (case m prev (c # s) of
        Some (n, repl) \<Rightarrow> repl @ sub_scan m (Some c) (n - 1) s
      | None \<Rightarrow> c # sub_scan m (Some c) 0 s)"

definition re_sub :: "(char option \<Rightarrow> string \<Rightarrow> (nat \<times> string) option) \<Rightarrow> string \<Rightarrow> string" where
  "re_sub m s = sub_scan m None 0 s"

definition span :: "(char \<Rightarrow> bool) \<Rightarrow> string \<Rightarrow> nat" where
  "span P s = length (takeWhile P s)"

definition is_alnum_ascii :: "char \<Rightarrow> bool" where
  "is_alnum_ascii c =
     (let n = (of_char c :: nat)
      in (48 \<le> n \<and> n \<le> 57) \<or> (65 \<le> n \<and> n \<le> 90) \<or> (97 \<le> n \<and> n \<le> 122))"

text \<open>The class \<open>[A-Za-z0-9_-]\<close>.\<close>

definition is_token_char :: "char \<Rightarrow> bool" where
  "is_token_char c = (is_alnum_ascii c \<or> c = CHR ''_'' \<or> c = CHR ''-'')"

text \<open>\<open>\w\<close> on code points below 256: alphanumeric characters and the underscore.\<close>

definition is_word_char :: "char \<Rightarrow> bool" where
  "is_word_char c =
     (let n = (of_char c :: nat)
      in is_alnum_ascii c \<or> c = CHR ''_'' \<or> n \<in> set [170, 178, 179, 181, 185, 186, 188, 189, 190]
         \<or> (192 \<le> n \<and> n \<le> 214) \<or> (216 \<le> n \<and> n \<le> 246) \<or> 248 \<le> n)"

text \<open>
  \<open>[A-Za-z0-9_-]{20,}\.[A-Za-z0-9_-]{20,}\.[A-Za-z0-9_-]{20,}\<close>: each greedy run must
  be the whole run of class characters, since a dot has to follow it.
\<close>

definition match_jwt :: "char option \<Rightarrow> string \<Rightarrow> (nat \<times> string) option" where
  "match_jwt prev s =
     (let n1 = span is_token_char s; r1 = drop n1 s
      in if n1 \<ge> 20 \<and> startswith r1 ''.'' then
           (let n2 = span is_token_char (tl r1); r2 = drop n2 (tl r1)
            in if n2 \<ge> 20 \<and> startswith r2 ''.'' then
                 (let n3 = span is_token_char (tl r2)
                  in if n3 \<ge> 20 then Some (n1 + 1 + n2 + 1 + n3, ''[TOKEN_REDACTED]'')
                     else None)
               else None)
         else None)"

text \<open>\<open>\b[A-Za-z0-9]{32,}\b\<close>\<close>

definition match_api_key :: "char option \<Rightarrow> string \<Rightarrow> (nat \<times> string) option" where
  "match_api_key prev s =
     (let n = span is_alnum_ascii s; r = drop n s
      in if n \<ge> 32 \<and> (case prev of None \<Rightarrow> True | Some p \<Rightarrow> \<not> is_word_char p)
            \<and> (case r of [] \<Rightarrow> True | c # _ \<Rightarrow> \<not> is_word_char c)
         then Some (n, ''[API_KEY_REDACTED]'') else None)"

text \<open>
  \<open>(?i)(password|passwd|pwd|secret|token|key)\s*[:=]\s*[^\s]+\<close>, replaced by the
  matched keyword followed by \<open>=[REDACTED]\<close>.
\<close>

definition secret_keywords :: "string list" where
  "secret_keywords = [''password'', ''passwd'', ''pwd'', ''secret'', ''token'', ''key'']"

definition match_secret :: "char option \<Rightarrow> string \<Rightarrow> (nat \<times> string) option" where
  "match_secret prev s =
     (case filter (\<lambda>kw. lower (take (length kw) s) = kw) secret_keywords of
        [] \<Rightarrow> None
      | kw # _ \<Rightarrow>
          (let r1 = drop (length kw) s; n1 = span is_space r1; r2 = drop n1 r1
           in if startswith r2 '':'' \<or> startswith r2 ''=''
              then (let n2 = span is_space (tl r2); r3 = drop n2 (tl r2);
                        n3 = span (\<lambda>c. \<not> is_space c) r3
                    in if n3 \<ge> 1
                       then Some (length kw + n1 + 1 + n2 + n3,
                                  take (length kw) s @ ''=[REDACTED]'')
                       else None)
              else None))"

text \<open>\<open>(postgresql|mysql|mongodb)://[^\s]+\<close>\<close>

definition db_schemes :: "string list" where
  "db_schemes = [''postgresql'', ''mysql'', ''mongodb'']"

definition match_db_url :: "char option \<Rightarrow> string \<Rightarrow> (nat \<times> string) option" where
  "match_db_url prev s =
     (case filter (\<lambda>scheme. startswith s (scheme @ ''://'')) db_schemes of
        [] \<Rightarrow> None
      | scheme # _ \<Rightarrow>
          (let r = drop (length scheme + 3) s; n = span (\<lambda>c. \<not> is_space c) r
           in if n \<ge> 1 then Some (length scheme + 3 + n, ''[DB_CONNECTION_REDACTED]'')
              else None))"

text \<open>\<open>sanitize_error_message\<close> on \<open>error_str = str(error)\<close>.\<close>

definition sanitize_error_message :: "string \<Rightarrow> string" where
  "sanitize_error_message error_str =
     (let s1 = re_sub match_jwt error_str;
          s2 = re_sub match_api_key s1;
          s3 = re_sub match_secret s2;
          s4 = re_sub match_db_url s3
      in if py_in ''traceback'' (lower s4) \<or> py_in ''exception'' (lower s4)
         then ''An internal error occurred. Please try again or contact support.''
         else s4)"

section \<open>Task executor\<close>

datatype AuditEventType =
    USER_ACTION | AGENT_ACTION | TASK_CREATED | TASK_COMPLETED | TASK_FAILED
  | TRANSACTION_CREATED | TRANSACTION_COMPLETED | SYSTEM_EVENT | SECURITY_EVENT

text \<open>An audit row, without its generated identifier and creation time.\<close>

record AuditLog =
  audit_event_type :: AuditEventType
  audit_description :: string
  audit_user_id :: string
  audit_task_id :: "string option"
  audit_transaction_id :: "string option"
  audit_ip_address :: "string option"
  audit_user_agent :: "string option"

text \<open>
  What \<open>execute_task\<close> acts on besides its local variables: the task row as of the last
  commit, the audit rows, the transaction ledger and the published events.
\<close>

record world =
  persisted_task :: "Task option"
  audit_logs :: "AuditLog list"
  transactions :: "Transaction list"
  events :: "(string \<times> dict) list"

text \<open>
  The collaborators of one call: the two inference backends, the settings, the current
  date, the clock and the identifier source (both by call site), the formatting of an
  amount with two decimals and of a value as text, the agent registry (an agent is given
  by the outcome of its \<open>run\<close>), and the values of the names \<open>ip_address\<close> and
  \<open>user_agent\<close> in a namespace that binds them.
\<close>

record environment =
  env_groq :: backend
  env_gemini :: backend
  env_settings :: Settings
  env_today :: date
  env_utcnow :: "nat \<Rightarrow> string"
  env_uuid4 :: "nat \<Rightarrow> string"
  env_money :: "float64 \<Rightarrow> string"
  env_str_of :: "json \<Rightarrow> string"
  env_registry_get :: "string \<Rightarrow> (dict \<Rightarrow> dict \<Rightarrow> exn + AgentResult) option"
  env_ip_address :: "string option"
  env_user_agent :: "string option"

text \<open>
  The names bound at module level of \<open>task_executor.py\<close>: its imports, \<open>logger\<close> and
  the class itself. A name that a function reads without binding it is looked up here,
  and the lookup raises \<open>NameError\<close> when the name is missing.
\<close>

definition module_globals :: "string list" where
  "module_globals =
     [''Dict'', ''Any'', ''Optional'', ''AsyncSession'', ''select'', ''UUID'', ''uuid4'',
      ''datetime'', ''Task'', ''TaskStatus'', ''Transaction'', ''TransactionType'',
      ''TransactionStatus'', ''AuditLog'', ''AuditEventType'', ''IntentRequest'',
      ''parse_intent'', ''BudgetService'', ''ApprovalService'', ''PolicyService'',
      ''event_service'', ''registry'', ''settings'', ''structlog'', ''logger'',
      ''TaskExecutor'']"

definition require :: "string list \<Rightarrow> string list \<Rightarrow> exn option" where
  "require ns names =
     (case filter (\<lambda>n. n \<notin> set ns) names of [] \<Rightarrow> None | n # _ \<Rightarrow> Some (NameError n))"

text \<open>Reading a local variable: \<open>None\<close> is a local that has not been assigned yet.\<close>

definition local_var :: "string \<Rightarrow> 'a option \<Rightarrow> exn + 'a" where
  "local_var name v = (case v of None \<Rightarrow> Inl (UnboundLocalError name) | Some x \<Rightarrow> Inr x)"

datatype 'a flow = Return | Continue 'a

definition log_audit ::
  "string \<Rightarrow> AuditEventType \<Rightarrow> string \<Rightarrow> string option \<Rightarrow> string option \<Rightarrow> string option
     \<Rightarrow> string option \<Rightarrow> world \<Rightarrow> world" where
  "log_audit user_id event_type descr tid txid ip ua w =
     w\<lparr>audit_logs := audit_logs w @
          [\<lparr>audit_event_type = event_type, audit_description = descr,
            audit_user_id = user_id, audit_task_id = tid, audit_transaction_id = txid,
            audit_ip_address = ip, audit_user_agent = ua\<rparr>]\<rparr>"

definition publish :: "string \<Rightarrow> dict \<Rightarrow> world \<Rightarrow> world" where
  "publish event_type payload w = w\<lparr>events := events w @ [(event_type, payload)]\<rparr>"

definition commit :: "Task \<Rightarrow> world \<Rightarrow> world" where
  "commit t w = w\<lparr>persisted_task := Some t\<rparr>"

definition opt_str :: "string option \<Rightarrow> json" where
  "opt_str v = (case v of None \<Rightarrow> JNull | Some s \<Rightarrow> JStr s)"

definition opt_float :: "real option \<Rightarrow> json" where
  "opt_float v = (case v of None \<Rightarrow> JNull | Some x \<Rightarrow> JFloat x)"

definition opt_dict :: "dict option \<Rightarrow> json" where
  "opt_dict v = (case v of None \<Rightarrow> JNull | Some d \<Rightarrow> JDict d)"

definition render_reason :: "(float64 \<Rightarrow> string) \<Rightarrow> budget_reason \<Rightarrow> string" where
  "render_reason fmt r =
     (case r of
        Budget_limit_exceeded c a l \<Rightarrow>
          ''Budget limit exceeded. Current: $'' @ fmt c @ '', Requested: $'' @ fmt a
            @ '', Limit: $'' @ fmt l
      | Invalid_period p \<Rightarrow> ''Invalid period: '' @ p)"

text \<open>\<open>_determine_agent_type\<close>\<close>

definition determine_agent_type :: "IntentResult \<Rightarrow> string option" where
  "determine_agent_type intent_result =
     (let i = lower (intent intent_result);
          c = lower (case command intent_result of None \<Rightarrow> [] | Some s \<Rightarrow> s)
      in if any_keyword_in [''research'', ''search'', ''find'', ''lookup''] i then Some ''research''
         else if any_keyword_in [''email'', ''send'', ''draft'', ''communicate'', ''message''] i
              then Some ''communication''
         else if any_keyword_in [''purchase'', ''buy'', ''product'', ''price'', ''compare''] i
              then Some ''purchase''
         else if py_in ''research'' c then Some ''research''
         else if py_in ''email'' c \<or> py_in ''send'' c then Some ''communication''
         else if py_in ''purchase'' c \<or> py_in ''buy'' c then Some ''purchase''
         else Some ''research'')"

text \<open>
  Steps 1 and 2 (lines 48 to 88): parse the intent, create the task row and flush it.
  The cost of an intent is carried as the real number that the float denotes.
\<close>

definition create_task ::
  "string list \<Rightarrow> environment \<Rightarrow> string \<Rightarrow> string \<Rightarrow> dict option \<Rightarrow> world
     \<Rightarrow> (exn + IntentResult \<times> Task) \<times> world" where
  "create_task ns env user_id message ctx w =
     (case require ns [''logger'', ''IntentRequest''] of
        Some e \<Rightarrow> (Inl e, w)
      | None \<Rightarrow>
        (if message = []
         then (Inl (ValidationError ''String should have at least 1 character''), w)
         else
           (case require ns [''parse_intent''] of
              Some e \<Rightarrow> (Inl e, w)
            | None \<Rightarrow>
              (case parse_intent (env_groq env) (env_gemini env)
                      \<lparr>user_message = message, request_context = ctx\<rparr> of
                 Inl e \<Rightarrow> (Inl e, w)
               | Inr intent_result \<Rightarrow>
                 (case require ns [''Task'', ''uuid4'', ''TaskPriority'', ''TaskStatus''] of
                    Some e \<Rightarrow> (Inl e, w)
                  | None \<Rightarrow>
                    (let t = \<lparr>task_id = env_uuid4 env 0,
                              task_title = ''Task: '' @ intent intent_result,
                              task_description = message,
                              task_command = command intent_result,
                              task_parameters =
                                (case parameters intent_result of None \<Rightarrow> [] | Some p \<Rightarrow> p),
                              priority = MEDIUM, status = PENDING, created_by = user_id,
                              assigned_agent_id = None,
                              result = Some [(''intent'', JStr (intent intent_result)),
                                             (''confidence'', JFloat (confidence intent_result)),
                                             (''entities'', opt_dict (entities intent_result))],
                              error_message = None, started_at = None, completed_at = None\<rparr>
                     in if \<not> insertable t then (Inl not_null_violation, w)
                        else
                        (case require ns [''TaskExecutor'', ''AuditEventType''] of
                           Some e \<Rightarrow> (Inl e, w)
                         | None \<Rightarrow>
                           (let w1 = log_audit user_id TASK_CREATED
                                       (''Task '' @ task_id t @ '' created'')
                                       (Some (task_id t)) None None None w
                            in (case require ns [''event_service''] of
                                  Some e \<Rightarrow> (Inl e, w1)
                                | None \<Rightarrow>
                                  (Inr (intent_result, t),
                                   publish ''task_created''
                                     [(''task_id'', JStr (task_id t)),
                                      (''title'', JStr (task_title t)),
                                      (''status'', JStr (status_value (status t))),
                                      (''intent'', JStr (intent intent_result))] w1))))))))))"

text \<open>Step 3 (lines 90 to 104): the budget gate.\<close>

definition check_budget_step ::
  "string list \<Rightarrow> environment \<Rightarrow> string \<Rightarrow> IntentResult \<Rightarrow> Task \<Rightarrow> world
     \<Rightarrow> (exn + unit flow) \<times> Task \<times> world" where
  "check_budget_step ns env user_id intent_result t w =
     (if truthy_num (estimated_cost intent_result) \<and> the (estimated_cost intent_result) > 0
      then
        (case require ns [''BudgetService''] of Some e \<Rightarrow> (Inl e, t, w) | None \<Rightarrow>
         (case check_budget (env_settings env) (transactions w) (env_today env) user_id
                 (Finite (the (estimated_cost intent_result))) ''daily'' of
            (is_allowed, reason) \<Rightarrow>
              if \<not> is_allowed then
                (case require ns [''TaskStatus''] of Some e \<Rightarrow> (Inl e, t, w) | None \<Rightarrow>
                 (let t1 = t\<lparr>status := FAILED,
                              error_message := map_option (render_reason (env_money env)) reason\<rparr>;
                      w1 = commit t1 w
                  in case require ns [''TaskExecutor'', ''AuditEventType''] of
                       Some e \<Rightarrow> (Inl e, t1, w1)
                     | None \<Rightarrow>
                         (Inr Return, t1,
                          log_audit user_id TASK_FAILED
                            (''Task '' @ task_id t1 @ '' failed: budget exceeded'')
                            (Some (task_id t1)) None None None w1)))
              else (Inr (Continue ()), t, w)))
      else (Inr (Continue ()), t, w))"

text \<open>\<open>ApprovalService.create_approval_request\<close>, on the task row it has looked up.\<close>

definition create_approval_request ::
  "environment \<Rightarrow> IntentResult \<Rightarrow> string \<Rightarrow> Task \<Rightarrow> world \<Rightarrow> Task \<times> world" where
  "create_approval_request env intent_result user_id t w =
     (let res = (case result t of None \<Rightarrow> [] | Some r \<Rightarrow> r);
          t1 = t\<lparr>result := Some (dict_set res ''approval_request''
                  (JDict [(''requires_approval'', JBool (requires_approval intent_result)),
                          (''risk_level'', opt_str (risk_level intent_result)),
                          (''estimated_cost'', opt_float (estimated_cost intent_result)),
                          (''intent'', JStr (intent intent_result)),
                          (''confidence'', JFloat (confidence intent_result)),
                          (''requested_at'', JStr (env_utcnow env 0)),
                          (''requested_by'', JStr user_id)]))\<rparr>;
          t2 = (if requires_approval intent_result then t1\<lparr>status := PENDING\<rparr>
                else t1\<lparr>status := IN_PROGRESS, started_at := Some (env_utcnow env 0)\<rparr>)
      in (t2, commit t2 w))"

text \<open>Step 4 (lines 106 to 133): the approval gate.\<close>

definition check_approval_step ::
  "string list \<Rightarrow> environment \<Rightarrow> string \<Rightarrow> IntentResult \<Rightarrow> Task \<Rightarrow> world
     \<Rightarrow> (exn + unit flow) \<times> Task \<times> world" where
  "check_approval_step ns env user_id intent_result t w =
     (if requires_approval intent_result then
        (case require ns [''logger'', ''ApprovalService''] of Some e \<Rightarrow> (Inl e, t, w) | None \<Rightarrow>
         (case create_approval_request env intent_result user_id t w of
            (t1, w1) \<Rightarrow>
              (case require ns [''TaskStatus''] of Some e \<Rightarrow> (Inl e, t1, w1) | None \<Rightarrow>
               (let t2 = t1\<lparr>status := PENDING\<rparr>
                in case require ns [''TaskExecutor'', ''AuditEventType''] of
                     Some e \<Rightarrow> (Inl e, t2, w1)
                   | None \<Rightarrow>
                   (let w2 = log_audit user_id SECURITY_EVENT
                               (''Approval requested for task '' @ task_id t2)
                               (Some (task_id t2)) None None None w1
                    in case require ns [''event_service''] of
                         Some e \<Rightarrow> (Inl e, t2, w2)
                       | None \<Rightarrow>
                           (Inr Return, t2,
                            commit t2
                              (publish ''approval_needed''
                                 [(''task_id'', JStr (task_id t2)),
                                  (''title'', JStr (task_title t2)),
                                  (''risk_level'', opt_str (risk_level intent_result)),
                                  (''estimated_cost'', opt_float (estimated_cost intent_result))]
                                 w2)))))))
      else (Inr (Continue ()), t, w))"

text \<open>
  Step 5, first part (lines 135 to 183): mark the task in progress, announce the agent,
  then choose and fetch it. The local \<open>agent_type\<close> is read for the \<open>agent_started\<close>
  event before its assignment.
\<close>

definition start_execution_step ::
  "string list \<Rightarrow> environment \<Rightarrow> string \<Rightarrow> IntentResult \<Rightarrow> Task \<Rightarrow> world
     \<Rightarrow> (exn + (string \<times> (dict \<Rightarrow> dict \<Rightarrow> exn + AgentResult)) flow) \<times> Task \<times> world" where
  "start_execution_step ns env user_id intent_result t w =
     (case require ns [''TaskStatus'', ''datetime''] of Some e \<Rightarrow> (Inl e, t, w) | None \<Rightarrow>
      (let t1 = t\<lparr>status := IN_PROGRESS, started_at := Some (env_utcnow env 1)\<rparr>;
           w1 = commit t1 w
       in case require ns [''TaskExecutor'', ''AuditEventType'', ''ip_address'', ''user_agent''] of
            Some e \<Rightarrow> (Inl e, t1, w1)
          | None \<Rightarrow>
          (let w2 = log_audit user_id TASK_CREATED
                      (''Task '' @ task_id t1 @ '' started execution'')
                      (Some (task_id t1)) None (env_ip_address env) (env_user_agent env) w1
           in case require ns [''event_service''] of Some e \<Rightarrow> (Inl e, t1, w2) | None \<Rightarrow>
           (let w3 = publish ''status_changed''
                       [(''task_id'', JStr (task_id t1)),
                        (''status'', JStr (status_value (status t1))),
                        (''previous_status'', JStr ''pending'')] w2
            in case local_var ''agent_type'' (None :: string option) of
                 Inl e \<Rightarrow> (Inl e, t1, w3)
               | Inr unassigned \<Rightarrow>
               (let w4 = publish ''agent_started''
                           [(''task_id'', JStr (task_id t1)),
                            (''agent_type'', JStr unassigned)] w3
                in case require ns [''TaskExecutor''] of Some e \<Rightarrow> (Inl e, t1, w4) | None \<Rightarrow>
                   (case determine_agent_type intent_result of
                      None \<Rightarrow>
                        (let t2 = t1\<lparr>status := FAILED,
                                     error_message := Some ''No suitable agent found for this intent''\<rparr>
                         in (Inr Return, t2, commit t2 w4))
                    | Some kind \<Rightarrow>
                        if kind = [] then
                          (let t2 = t1\<lparr>status := FAILED,
                                       error_message := Some ''No suitable agent found for this intent''\<rparr>
                           in (Inr Return, t2, commit t2 w4))
                        else
                          (case require ns [''registry''] of Some e \<Rightarrow> (Inl e, t1, w4) | None \<Rightarrow>
                           (case env_registry_get env kind of
                              None \<Rightarrow>
                                (let t2 = t1\<lparr>status := FAILED,
                                             error_message :=
                                               Some (''Agent type '' @ [CHR 0x27] @ kind @ [CHR 0x27]
                                                     @ '' not found'')\<rparr>
                                 in (Inr Return, t2, commit t2 w4))
                            | Some agent \<Rightarrow> (Inr (Continue (kind, agent)), t1, w4)))))))))"

text \<open>\<open>k in v\<close> and \<open>v[k]\<close> for a string key on any value.\<close>

fun py_contains :: "string \<Rightarrow> json \<Rightarrow> exn + bool" where
  "py_contains k (JDict d) = Inr (map_of d k \<noteq> None)"
| "py_contains k (JStr s) = Inr (py_in k s)"
| "py_contains k (JList xs) = Inr (JStr k \<in> set xs)"
| "py_contains k v =
     Inl (TypeError (''argument of type '' @ [CHR 0x27] @ type_name v @ [CHR 0x27]
            @ '' is not iterable''))"

fun py_index :: "json \<Rightarrow> string \<Rightarrow> exn + json" where
  "py_index (JDict d) k =
     (case map_of d k of None \<Rightarrow> Inl (KeyError ([CHR 0x27] @ k @ [CHR 0x27])) | Some v \<Rightarrow> Inr v)"
| "py_index (JStr s) k =
     Inl (TypeError (''string indices must be integers, not '' @ [CHR 0x27] @ ''str'' @ [CHR 0x27]))"
| "py_index (JList xs) k = Inl (TypeError ''list indices must be integers or slices, not str'')"
| "py_index v k =
     Inl (TypeError ([CHR 0x27] @ type_name v @ [CHR 0x27] @ '' object is not subscriptable''))"

text \<open>
  The search of lines 209 to 221 for the first truthy summary among the dependency
  results.
\<close>

fun find_summary :: "dict \<Rightarrow> exn + json option" where
  "find_summary [] = Inr None"
| "find_summary ((dep_key, dep_data) # rest) =
     (case dep_data of
        JDict d \<Rightarrow>
          (case py_contains ''summary'' (dict_get d ''data'' (JDict [])) of
             Inl e \<Rightarrow> Inl e
           | Inr True \<Rightarrow>
               (case py_index (dict_get d ''data'' (JDict [])) ''summary'' of
                  Inl e \<Rightarrow> Inl e
                | Inr s \<Rightarrow> if truthy s then Inr (Some s) else find_summary rest)
           | Inr False \<Rightarrow>
               (case map_of d ''summary'' of
                  Some s \<Rightarrow> if truthy s then Inr (Some s) else find_summary rest
                | None \<Rightarrow> find_summary rest))
      | _ \<Rightarrow> find_summary rest)"

text \<open>Lines 185 to 221: the task and the context handed to the agent.\<close>

definition prepare_agent_task ::
  "environment \<Rightarrow> string \<Rightarrow> string \<Rightarrow> dict option \<Rightarrow> IntentResult \<Rightarrow> Task \<Rightarrow> string
     \<Rightarrow> exn + dict \<times> dict" where
  "prepare_agent_task env user_id message ctx intent_result t kind =
     (let agent_task =
            [(''id'', JStr (task_id t)), (''query'', JStr message), (''message'', JStr message),
             (''text'', JStr message), (''command'', opt_str (command intent_result)),
             (''parameters'',
              JDict (case parameters intent_result of None \<Rightarrow> [] | Some p \<Rightarrow> p))];
          c = (case ctx of None \<Rightarrow> [] | Some d \<Rightarrow> d);
          agent_context =
            foldl (\<lambda>acc (k, v). dict_set acc k v)
              [(''user_id'', JStr user_id), (''task_id'', JStr (task_id t)),
               (''intent'', JStr (intent intent_result))] c
      in if c \<noteq> [] \<and> map_of c ''dependency_results'' \<noteq> None \<and> kind = ''communication''
         then
           (case the (map_of c ''dependency_results'') of
              JDict dep_results \<Rightarrow>
                (case find_summary dep_results of
                   Inl e \<Rightarrow> Inl e
                 | Inr None \<Rightarrow> Inr (agent_task, agent_context)
                 | Inr (Some summary) \<Rightarrow>
                     Inr (dict_set (dict_set agent_task ''research_summary'' summary) ''message''
                            (JStr (message @ [CHR 0x0A, CHR 0x0A] @ ''Research findings:''
                                   @ [CHR 0x0A] @ env_str_of env summary)),
                          agent_context))
            | v \<Rightarrow>
                Inl (AttributeError ([CHR 0x27] @ type_name v @ [CHR 0x27]
                       @ '' object has no attribute '' @ [CHR 0x27] @ ''items'' @ [CHR 0x27])))
         else Inr (agent_task, agent_context))"

text \<open>
  Step 6 (lines 223 to 320). The body of the \<open>try\<close> statement stores the outcome
  of \<open>agent.run\<close> on the task: \<open>store_success\<close> is the branch of lines 229 to 268,
  \<open>store_failure\<close> the branch of lines 269 to 306. An exception leaves the task and the
  world as they are at the point where it is raised.
\<close>

definition store_success ::
  "string list \<Rightarrow> environment \<Rightarrow> string \<Rightarrow> string \<Rightarrow> AgentResult \<Rightarrow> Task \<Rightarrow> world
     \<Rightarrow> (exn + unit) \<times> Task \<times> world" where
  "store_success ns env user_id kind agent_result t w =
     (case require ns [''TaskStatus'', ''datetime''] of
        Some e \<Rightarrow> (Inl e, t, w)
      | None \<Rightarrow>
        (let res = (case result t of None \<Rightarrow> [] | Some r \<Rightarrow> r);
             t1 = t\<lparr>status := COMPLETED, completed_at := Some (env_utcnow env 2),
                     result := Some
                       (dict_set
                          (dict_set
                             (dict_set res ''agent_result'' (JDict (data agent_result)))
                             ''sources'' (JList (sources agent_result)))
                          ''execution_time_ms'' (opt_float (execution_time_ms agent_result)))\<rparr>
         in (case require ns [''TaskExecutor'', ''AuditEventType''] of
               Some e \<Rightarrow> (Inl e, t1, w)
             | None \<Rightarrow>
               (let w1 = log_audit user_id TASK_COMPLETED
                           (''Task '' @ task_id t1 @ '' completed successfully'')
                           (Some (task_id t1)) None None None w
                in (case require ns [''event_service''] of
                      Some e \<Rightarrow> (Inl e, t1, w1)
                    | None \<Rightarrow>
                      (Inr (), t1,
                       publish ''task_completed''
                         [(''task_id'', JStr (task_id t1)),
                          (''status'', JStr (status_value (status t1))),
                          (''success'', JBool True)]
                         (publish ''agent_completed''
                            [(''task_id'', JStr (task_id t1)), (''agent_type'', JStr kind),
                             (''success'', JBool True),
                             (''execution_time_ms'',
                              opt_float (execution_time_ms agent_result))]
                            w1)))))))"

definition store_failure ::
  "string list \<Rightarrow> environment \<Rightarrow> string \<Rightarrow> string \<Rightarrow> AgentResult \<Rightarrow> Task \<Rightarrow> world
     \<Rightarrow> (exn + unit) \<times> Task \<times> world" where
  "store_failure ns env user_id kind agent_result t w =
     (case require ns [''TaskStatus'', ''datetime''] of
        Some e \<Rightarrow> (Inl e, t, w)
      | None \<Rightarrow>
        (let t1 = t\<lparr>status := FAILED, error_message := error agent_result,
                     completed_at := Some (env_utcnow env 3)\<rparr>
         in (case require ns [''PolicyService''] of
               Some e \<Rightarrow> (Inl e, t1, w)
             | None \<Rightarrow>
               (let sanitized_error =
                      sanitize_error_message
                        (case error agent_result of None \<Rightarrow> ''None'' | Some m \<Rightarrow> m)
                in (case require ns [''TaskExecutor'', ''AuditEventType'', ''ip_address'',
                                     ''user_agent''] of
                      Some e \<Rightarrow> (Inl e, t1, w)
                    | None \<Rightarrow>
                      (let w1 = log_audit user_id TASK_FAILED
                                  (''Task '' @ task_id t1 @ '' failed: '' @ sanitized_error)
                                  (Some (task_id t1)) None (env_ip_address env)
                                  (env_user_agent env) w
                       in (case require ns [''event_service''] of
                             Some e \<Rightarrow> (Inl e, t1, w1)
                           | None \<Rightarrow>
                             (Inr (), t1,
                              publish ''status_changed''
                                [(''task_id'', JStr (task_id t1)),
                                 (''status'', JStr (status_value (status t1))),
                                 (''previous_status'', JStr ''in_progress''),
                                 (''error'', opt_str (error agent_result))]
                                (publish ''agent_completed''
                                   [(''task_id'', JStr (task_id t1)),
                                    (''agent_type'', JStr kind),
                                    (''success'', JBool False),
                                    (''error'', opt_str (error agent_result))]
                                   w1)))))))))"

definition agent_try_body ::
  "string list \<Rightarrow> environment \<Rightarrow> string \<Rightarrow> string \<Rightarrow> (exn + AgentResult) \<Rightarrow> Task \<Rightarrow> world
     \<Rightarrow> (exn + unit) \<times> Task \<times> world" where
  "agent_try_body ns env user_id kind run_outcome t w =
     (case require ns [''logger''] of
        Some e \<Rightarrow> (Inl e, t, w)
      | None \<Rightarrow>
        (case run_outcome of
           Inl e \<Rightarrow> (Inl e, t, w)
         | Inr agent_result \<Rightarrow>
           (if success agent_result
            then store_success ns env user_id kind agent_result t w
            else store_failure ns env user_id kind agent_result t w)))"

text \<open>The handler \<open>except Exception as e\<close> of lines 308 to 320.\<close>

definition agent_except_handler ::
  "string list \<Rightarrow> environment \<Rightarrow> string \<Rightarrow> exn \<Rightarrow> Task \<Rightarrow> world
     \<Rightarrow> (exn + unit) \<times> Task \<times> world" where
  "agent_except_handler ns env user_id e t w =
     (case require ns [''logger'', ''TaskStatus''] of Some e' \<Rightarrow> (Inl e', t, w) | None \<Rightarrow>
      (let t1 = t\<lparr>status := FAILED\<rparr>
       in case require ns [''PolicyService''] of Some e' \<Rightarrow> (Inl e', t1, w) | None \<Rightarrow>
          (let sanitized_error = sanitize_error_message (str_exn e);
               t2 = t1\<lparr>error_message := Some (''Agent execution error: '' @ sanitized_error)\<rparr>
           in case require ns [''datetime''] of Some e' \<Rightarrow> (Inl e', t2, w) | None \<Rightarrow>
              (let t3 = t2\<lparr>completed_at := Some (env_utcnow env 4)\<rparr>
               in case require ns [''TaskExecutor'', ''AuditEventType'', ''ip_address'', ''user_agent''] of
                    Some e' \<Rightarrow> (Inl e', t3, w)
                  | None \<Rightarrow>
                      (Inr (), t3,
                       log_audit user_id TASK_FAILED
                         (''Task '' @ task_id t3 @ '' failed with exception: '' @ sanitized_error)
                         (Some (task_id t3)) None (env_ip_address env) (env_user_agent env) w)))))"

definition execute_agent_step ::
  "string list \<Rightarrow> environment \<Rightarrow> string \<Rightarrow> string \<Rightarrow> (exn + AgentResult) \<Rightarrow> Task \<Rightarrow> world
     \<Rightarrow> (exn + unit) \<times> Task \<times> world" where
  "execute_agent_step ns env user_id kind run_outcome t w =
     (case agent_try_body ns env user_id kind run_outcome t w of
        (Inl e, t1, w1) \<Rightarrow> agent_except_handler ns env user_id e t1 w1
      | (Inr u, t1, w1) \<Rightarrow> (Inr u, t1, w1))"

text \<open>Steps 7 and 8 (lines 322 to 357): the transaction, the commit, the last audit row.\<close>

definition record_transaction_step ::
  "string list \<Rightarrow> environment \<Rightarrow> string \<Rightarrow> string \<Rightarrow> IntentResult \<Rightarrow> string \<Rightarrow> Task \<Rightarrow> world
     \<Rightarrow> (exn + unit) \<times> Task \<times> world" where
  "record_transaction_step ns env user_id message intent_result kind t w =
     (case require ns [''Transaction'', ''uuid4'', ''TransactionType'', ''TransactionStatus'',
                       ''TaskStatus''] of
        Some e \<Rightarrow> (Inl e, t, w)
      | None \<Rightarrow>
      (let tx = \<lparr>tx_id = env_uuid4 env 1, transaction_type = TT_COMMAND,
                 tx_status = (if status t = COMPLETED then TX_SUCCESS else TX_FAILED),
                 tx_task_id = Some (task_id t),
                 request_data = Some [(''user_message'', JStr message),
                                      (''intent'', JStr (intent intent_result)),
                                      (''agent_type'', JStr kind)],
                 response_data = result t,
                 tx_cost = Some (if truthy_num (estimated_cost intent_result)
                                 then the (estimated_cost intent_result) else 0),
                 tx_created_by = user_id, tx_started_at = started_at t,
                 tx_completed_at = completed_at t, tx_created_on = env_today env\<rparr>
       in case (if truthy_num (estimated_cost intent_result)
                   \<and> the (estimated_cost intent_result) > 0
                then require ns [''BudgetService''] else None) of
            Some e \<Rightarrow> (Inl e, t, w)
          | None \<Rightarrow>
          (let w1 = commit t (w\<lparr>transactions := transactions w @ [tx]\<rparr>)
           in case require ns [''TaskExecutor'', ''AuditEventType'', ''ip_address'', ''user_agent''] of
                Some e \<Rightarrow> (Inl e, t, w1)
              | None \<Rightarrow>
                  (Inr (), t,
                   log_audit user_id TRANSACTION_COMPLETED
                     (''Transaction '' @ tx_id tx @ '' recorded for task '' @ task_id t)
                     (Some (task_id t)) (Some (tx_id tx)) (env_ip_address env)
                     (env_user_agent env) w1))))"

text \<open>
  \<open>TaskExecutor.execute_task\<close>: the outcome is the raised exception or the returned
  task, together with the world as the call leaves it. \<open>ns\<close> is the namespace in which
  the function looks up the names it does not bind itself.
\<close>

definition execute_task ::
  "string list \<Rightarrow> environment \<Rightarrow> world \<Rightarrow> string \<Rightarrow> string \<Rightarrow> dict option
     \<Rightarrow> (exn + Task) \<times> world" where
  "execute_task ns env w user_id message ctx =
     (case create_task ns env user_id message ctx w of
        (Inl e, w1) \<Rightarrow> (Inl e, w1)
      | (Inr (intent_result, t), w1) \<Rightarrow>
     (case check_budget_step ns env user_id intent_result t w1 of
        (Inl e, t2, w2) \<Rightarrow> (Inl e, w2)
      | (Inr Return, t2, w2) \<Rightarrow> (Inr t2, w2)
      | (Inr (Continue u), t2, w2) \<Rightarrow>
     (case check_approval_step ns env user_id intent_result t2 w2 of
        (Inl e, t3, w3) \<Rightarrow> (Inl e, w3)
      | (Inr Return, t3, w3) \<Rightarrow> (Inr t3, w3)
      | (Inr (Continue u), t3, w3) \<Rightarrow>
     (case start_execution_step ns env user_id intent_result t3 w3 of
        (Inl e, t4, w4) \<Rightarrow> (Inl e, w4)
      | (Inr Return, t4, w4) \<Rightarrow> (Inr t4, w4)
      | (Inr (Continue (kind, agent)), t4, w4) \<Rightarrow>
     (case prepare_agent_task env user_id message ctx intent_result t4 kind of
        Inl e \<Rightarrow> (Inl e, w4)
      | Inr (agent_task, agent_context) \<Rightarrow>
     (case execute_agent_step ns env user_id kind (agent agent_task agent_context) t4 w4 of
        (Inl e, t5, w5) \<Rightarrow> (Inl e, w5)
      | (Inr u, t5, w5) \<Rightarrow>
     (case record_transaction_step ns env user_id message intent_result kind t5 w5 of
        (Inl e, t6, w6) \<Rightarrow> (Inl e, w6)
      | (Inr u, t6, w6) \<Rightarrow> (Inr t6, w6))))))))"

section \<open>Orchestrator\<close>



text \<open>Sample collaborators and inputs.\<close>

definition plain_intent :: IntentResult where
  "plain_intent =
     \<lparr>intent = ''research_topic'', confidence = 0.9, entities = None,
      command = Some ''research'', parameters = None, requires_approval = False,
      estimated_cost = None, risk_level = Some ''low''\<rparr>"

definition raw_error :: string where
  "raw_error = ''db down: postgresql://admin:hunter2@db/prod''"

definition failing_agent :: "dict \<Rightarrow> dict \<Rightarrow> exn + AgentResult" where
  "failing_agent agent_task agent_context = Inr (failed_result raw_error (Some 12))"

definition sample_env :: environment where
  "sample_env =
     \<lparr>env_groq = (\<lambda>m c. Inr plain_intent), env_gemini = (\<lambda>m c. Inl (HTTPError ''503'')),
      env_settings = default_settings, env_today = sample_today,
      env_utcnow = (\<lambda>k. ''2025-03-14T10:00:0'' @ str_nat k),
      env_uuid4 = (\<lambda>k. ''id-'' @ str_nat k),
      env_money = (\<lambda>x. ''?''), env_str_of = (\<lambda>v. ''?''),
      env_registry_get = (\<lambda>kind. Some failing_agent),
      env_ip_address = Some ''10.0.0.1'', env_user_agent = Some ''curl''\<rparr>"

definition empty_world :: world where
  "empty_world = \<lparr>persisted_task = None, audit_logs = [], transactions = [], events = []\<rparr>"

text \<open>
  The namespace of the module, completed with the names that \<open>execute_task\<close> reads and
  the module does not bind.
\<close>

definition completed_globals :: "string list" where
  "completed_globals = [''TaskPriority'', ''ip_address'', ''user_agent''] @ module_globals"

section \<open>Facts about strings\<close>

lemma startswith_iff: "startswith s p \<longleftrightarrow> (\<exists>r. s = p @ r)"
  by (induction s p rule: startswith.induct) auto

lemma py_in_iff: "py_in sub s \<longleftrightarrow> (\<exists>ps ss. s = ps @ sub @ ss)"
proof (induction s)
  case Nil
  then show ?case by auto
next
  case (Cons c s)
  show ?case
  proof
    assume "py_in sub (c # s)"
    then consider "startswith (c # s) sub" | "py_in sub s" by auto
    then show "\<exists>ps ss. c # s = ps @ sub @ ss"
    proof cases
      case 1
      then obtain r where "c # s = sub @ r" by (auto simp: startswith_iff)
      then have "c # s = [] @ sub @ r" by simp
      then show ?thesis by blast
    next
      case 2
      then obtain ps ss where "s = ps @ sub @ ss" using Cons by auto
      then have "c # s = (c # ps) @ sub @ ss" by simp
      then show ?thesis by blast
    qed
  next
    assume "\<exists>ps ss. c # s = ps @ sub @ ss"
    then obtain ps ss where e: "c # s = ps @ sub @ ss" by auto
    show "py_in sub (c # s)"
    proof (cases ps)
      case Nil
      then have "c # s = sub @ ss" using e by simp
      then have "startswith (c # s) sub" unfolding startswith_iff by blast
      then show ?thesis by simp
    next
      case (Cons a ps')
      then have "s = ps' @ sub @ ss" using e by simp
      then show ?thesis using Cons.IH by auto
    qed
  qed
qed

lemma py_in_lower_iff: "py_in keyword (lower msg) \<longleftrightarrow> contains_ci msg keyword"
proof
  assume "py_in keyword (lower msg)"
  then obtain ps ss where "map lower_char msg = ps @ keyword @ ss"
    by (auto simp: py_in_iff lower_def)
  then have e: "map lower_char msg = ps @ keyword @ ss" .
  let ?n = "length ps" and ?k = "length keyword"
  have "map lower_char (take ?k (drop ?n msg)) = take ?k (drop ?n (map lower_char msg))"
    by (simp add: take_map drop_map)
  also have "\<dots> = keyword" by (simp add: e)
  finally have "lower (take ?k (drop ?n msg)) = keyword" by (simp add: lower_def)
  moreover have "msg = take ?n msg @ take ?k (drop ?n msg) @ drop ?k (drop ?n msg)"
    by (metis append_take_drop_id)
  ultimately have "\<exists>a b c. msg = a @ b @ c \<and> lower b = keyword" by blast
  then show "contains_ci msg keyword"
    unfolding contains_ci_def by blast
next
  assume "contains_ci msg keyword"
  then obtain ps w ss where "msg = ps @ w @ ss" "lower w = keyword"
    unfolding contains_ci_def by blast
  then have "lower msg = lower ps @ keyword @ lower ss"
    by (simp add: lower_def)
  then show "py_in keyword (lower msg)"
    unfolding py_in_iff by blast
qed

lemma any_keyword_in_lower:
  "any_keyword_in keywords (lower msg) \<longleftrightarrow> (\<exists>k \<in> set keywords. contains_ci msg k)"
  by (simp add: any_keyword_in_def list_ex_iff py_in_lower_iff)

section \<open>Facts about the business rules\<close>

lemma rule_spending_cost_approval:
  "requires_approval r \<Longrightarrow> requires_approval (rule_spending_cost r)"
  by (simp add: rule_spending_cost_def Let_def)

lemma rule_spending_keywords_approval:
  "requires_approval r \<Longrightarrow> requires_approval (rule_spending_keywords m r)"
  by (simp add: rule_spending_keywords_def Let_def)

lemma rule_destructive_approval:
  "requires_approval r \<Longrightarrow> requires_approval (rule_destructive m r)"
  by (simp add: rule_destructive_def Let_def)

lemma rule_spending_keywords_risk [simp]:
  "risk_level (rule_spending_keywords m r) = risk_level r"
  by (simp add: rule_spending_keywords_def Let_def)

lemma rule_destructive_cost [simp]:
  "estimated_cost (rule_destructive m r) = estimated_cost r"
  by (simp add: rule_destructive_def Let_def)

lemma rule_spending_cost_risk:
  "risk_level (rule_spending_cost r) = risk_level r \<or>
   (risk_level (rule_spending_cost r) = Some ''medium'' \<and>
    (risk_level r = None \<or> risk_level r = Some [] \<or> risk_level r = Some ''low''))"
  by (auto simp: rule_spending_cost_def Let_def truthy_str_def split: option.splits)

lemma rule_destructive_risk:
  "risk_level (rule_destructive m r) = risk_level r \<or>
   (risk_level (rule_destructive m r) = Some ''high'' \<and>
    (risk_level r = None \<or> risk_level r = Some [] \<or> risk_level r = Some ''low''
     \<or> risk_level r = Some ''medium''))"
  by (auto simp: rule_destructive_def Let_def truthy_str_def split: option.splits)

lemma apply_business_rules_risk_cases:
  "risk_level (apply_business_rules r m) = risk_level r
   \<or> (risk_level (apply_business_rules r m) = Some ''medium''
       \<and> (risk_level r = None \<or> risk_level r = Some [] \<or> risk_level r = Some ''low''))
   \<or> (risk_level (apply_business_rules r m) = Some ''high''
       \<and> (risk_level r = None \<or> risk_level r = Some [] \<or> risk_level r = Some ''low''
           \<or> risk_level r = Some ''medium''))"
  using rule_spending_cost_risk [of r]
    rule_destructive_risk [of m "rule_spending_keywords m (rule_spending_cost r)"]
  by (auto simp: apply_business_rules_def)

lemma risk_rank_values:
  "risk_rank ''low'' = Some 0" "risk_rank ''medium'' = Some 1"
  "risk_rank ''high'' = Some 2" "risk_rank ''critical'' = Some 3" "risk_rank [] = None"
  by (simp_all add: risk_rank_def)

text \<open>
  C4. The business-rule pass is monotone: an approval requirement is never dropped; a
  documented risk level is never replaced by a lower one in the order
  low, medium, high, critical; and a risk level that is set is never cleared.
\<close>

theorem apply_business_rules_monotone:
  "(requires_approval r \<longrightarrow> requires_approval (apply_business_rules r m)) \<and>
   (\<forall>l k. risk_level r = Some l \<and> risk_rank l = Some k \<longrightarrow>
      (\<exists>l' k'. risk_level (apply_business_rules r m) = Some l' \<and> risk_rank l' = Some k'
         \<and> k \<le> k')) \<and>
   (risk_level r \<noteq> None \<longrightarrow> risk_level (apply_business_rules r m) \<noteq> None)"
proof (intro conjI impI allI)
  assume "requires_approval r"
  then have "requires_approval (rule_spending_cost r)"
    by (rule rule_spending_cost_approval)
  then have "requires_approval (rule_spending_keywords m (rule_spending_cost r))"
    by (rule rule_spending_keywords_approval)
  then show "requires_approval (apply_business_rules r m)"
    unfolding apply_business_rules_def by (rule rule_destructive_approval)
next
  fix l k
  assume a: "risk_level r = Some l \<and> risk_rank l = Some k"
  let ?r' = "apply_business_rules r m"
  consider (same) "risk_level ?r' = risk_level r"
    | (medium) "risk_level ?r' = Some ''medium''" "l = [] \<or> l = ''low''"
    | (high) "risk_level ?r' = Some ''high''" "l = [] \<or> l = ''low'' \<or> l = ''medium''"
    using apply_business_rules_risk_cases [of r m] a by auto
  then show "\<exists>l' k'. risk_level ?r' = Some l' \<and> risk_rank l' = Some k' \<and> k \<le> k'"
  proof cases
    case same
    with a show ?thesis by simp
  next
    case medium
    with a have "k = 0" by (auto simp: risk_rank_values)
    with medium(1) show ?thesis by (simp add: risk_rank_values)
  next
    case high
    with a have "k \<le> 2" by (auto simp: risk_rank_values)
    with high(1) show ?thesis by (simp add: risk_rank_values)
  qed
next
  assume "risk_level r \<noteq> None"
  with apply_business_rules_risk_cases [of r m]
  show "risk_level (apply_business_rules r m) \<noteq> None"
    by auto
qed

theorem apply_business_rules_monotone_witness:
  "requires_approval (apply_business_rules sample_intent ''Delete the old logs'') \<and>
   (\<exists>l' k'. risk_level (apply_business_rules sample_intent ''Delete the old logs'') = Some l'
      \<and> risk_rank l' = Some k' \<and> 1 \<le> k') \<and>
   risk_level (apply_business_rules sample_intent ''Delete the old logs'') \<noteq> None"
proof -
  have a: "requires_approval sample_intent" by (simp add: sample_intent_def)
  have b: "risk_level sample_intent = Some ''medium'' \<and> risk_rank ''medium'' = Some 1"
    by (simp add: sample_intent_def risk_rank_def)
  have c: "risk_level sample_intent \<noteq> None" by (simp add: sample_intent_def)
  from apply_business_rules_monotone [of sample_intent "''Delete the old logs''"] a b c
  show ?thesis by blast
qed

text \<open>
  C5. When the message contains a spending keyword, case-insensitively, the result of the
  business-rule pass requires approval and has an estimated cost; a cost that was unset
  has become 0.0.
\<close>

theorem spending_keyword_forces_approval:
  assumes "\<exists>k \<in> set spending_keywords. contains_ci m k"
  shows "requires_approval (apply_business_rules r m) \<and>
         estimated_cost (apply_business_rules r m) \<noteq> None \<and>
         (estimated_cost r = None \<longrightarrow> estimated_cost (apply_business_rules r m) = Some 0)"
proof -
  have kw: "any_keyword_in spending_keywords (lower m)"
    using assms by (simp add: any_keyword_in_lower)
  let ?r2 = "rule_spending_cost r"
  let ?r3 = "rule_spending_keywords m ?r2"
  have r3a: "requires_approval ?r3"
    using kw by (simp add: rule_spending_keywords_def Let_def)
  have r3c: "estimated_cost ?r3 \<noteq> None"
    using kw by (auto simp: rule_spending_keywords_def Let_def truthy_num_def split: option.splits)
  have r2c: "estimated_cost ?r2 = estimated_cost r"
    by (simp add: rule_spending_cost_def Let_def)
  have r3n: "estimated_cost r = None \<longrightarrow> estimated_cost ?r3 = Some 0"
    using kw r2c by (simp add: rule_spending_keywords_def Let_def truthy_num_def)
  show ?thesis
    using r3a r3c r3n by (simp add: apply_business_rules_def rule_destructive_approval)
qed

theorem spending_keyword_forces_approval_witness:
  "requires_approval (apply_business_rules low_intent ''What is the PRICE of this?'') \<and>
   estimated_cost (apply_business_rules low_intent ''What is the PRICE of this?'') = Some 0"
proof -
  have "py_in ''price'' (lower ''What is the PRICE of this?'')" by code_simp
  then have "contains_ci ''What is the PRICE of this?'' ''price''"
    by (simp only: py_in_lower_iff)
  then have h: "\<exists>k \<in> set spending_keywords. contains_ci ''What is the PRICE of this?'' k"
    by (auto simp: spending_keywords_def)
  have n: "estimated_cost low_intent = None" by (simp add: low_intent_def)
  from spending_keyword_forces_approval [OF h, of low_intent] n
  show ?thesis by simp
qed

text \<open>
  C6, as the code has it. When the message contains a destructive-action keyword,
  case-insensitively, the result of the business-rule pass requires approval, whatever
  the classifier returned; its risk level is high when the classifier's level was unset,
  empty, low or medium, and is the classifier's level, unchanged, in every other case
  (high, critical, or a text outside the documented values).
\<close>

theorem destructive_keyword_forces_high:
  assumes "\<exists>k \<in> set destructive_keywords. contains_ci m k"
  shows "requires_approval (apply_business_rules r m) \<and>
         risk_level (apply_business_rules r m) =
           (if risk_level r = None \<or> risk_level r = Some [] \<or> risk_level r = Some ''low''
               \<or> risk_level r = Some ''medium''
            then Some ''high'' else risk_level r)"
proof -
  have kw: "any_keyword_in destructive_keywords (lower m)"
    using assms by (simp add: any_keyword_in_lower)
  let ?r3 = "rule_spending_keywords m (rule_spending_cost r)"
  let ?raisable = "\<lambda>v. v = None \<or> v = Some [] \<or> v = Some ''low'' \<or> v = Some ''medium''"
  have a: "requires_approval (rule_destructive m ?r3)"
    using kw by (simp add: rule_destructive_def Let_def)
  have d: "risk_level (rule_destructive m ?r3) =
             (if ?raisable (risk_level ?r3) then Some ''high'' else risk_level ?r3)"
    using kw by (auto simp: rule_destructive_def Let_def truthy_str_def split: option.splits)
  have c: "risk_level ?r3 = risk_level r \<or>
           (risk_level ?r3 = Some ''medium'' \<and>
            (risk_level r = None \<or> risk_level r = Some [] \<or> risk_level r = Some ''low''))"
    using rule_spending_cost_risk [of r] by simp
  have "risk_level (rule_destructive m ?r3) =
          (if ?raisable (risk_level r) then Some ''high'' else risk_level r)"
  proof (cases "risk_level ?r3 = risk_level r")
    case True
    with d show ?thesis by simp
  next
    case False
    with c have "risk_level ?r3 = Some ''medium''" and "?raisable (risk_level r)" by auto
    with d show ?thesis by simp
  qed
  with a show ?thesis by (simp add: apply_business_rules_def)
qed

theorem destructive_keyword_forces_high_witness:
  "requires_approval (apply_business_rules low_intent ''Please DELETE my account'') \<and>
   risk_level (apply_business_rules low_intent ''Please DELETE my account'') = Some ''high''"
proof -
  have "py_in ''delete'' (lower ''Please DELETE my account'')" by code_simp
  then have "contains_ci ''Please DELETE my account'' ''delete''"
    by (simp only: py_in_lower_iff)
  then have h: "\<exists>k \<in> set destructive_keywords. contains_ci ''Please DELETE my account'' k"
    by (auto simp: destructive_keywords_def)
  from destructive_keyword_forces_high [OF h, of low_intent]
  show ?thesis by (simp add: low_intent_def)
qed

text \<open>
  The property as the specification words it fails: the classifier's risk level is a free
  text, and for the level Low, with a capital letter, a message with the keyword delete
  leaves the level as it is, neither high nor critical.
\<close>

theorem destructive_keyword_counterexample:
  "''delete'' \<in> set destructive_keywords \<and>
   py_in ''delete'' (lower ''Please DELETE my account'') \<and>
   risk_level capital_low_intent = Some ''Low'' \<and>
   risk_level (apply_business_rules capital_low_intent ''Please DELETE my account'')
     = Some ''Low'' \<and>
   risk_level (apply_business_rules capital_low_intent ''Please DELETE my account'')
     \<noteq> Some ''high''"
  by code_simp

text \<open>
  C8. Intent classification always returns a result, whatever the two backends do; when
  both fail it returns the fixed degraded result: intent unknown, confidence 0.0,
  approval required, risk high.
\<close>

theorem parse_intent_never_raises:
  "(\<exists>r. parse_intent groq gemini request = Inr r) \<and>
   ((\<exists>e1. groq (user_message request) (request_context request) = Inl e1) \<and>
    (\<exists>e2. gemini (user_message request) (request_context request) = Inl e2) \<longrightarrow>
      parse_intent groq gemini request = Inr degraded_result \<and>
      intent degraded_result = ''unknown'' \<and> confidence degraded_result = 0 \<and>
      requires_approval degraded_result \<and> risk_level degraded_result = Some ''high'')"
  by (auto simp: parse_intent_def try_except_def Let_def degraded_result_def
      split: sum.splits)

theorem parse_intent_never_raises_witness:
  "parse_intent (\<lambda>m c. Inl (HTTPError ''503'')) (\<lambda>m c. Inl (JSONDecodeError ''bad''))
     \<lparr>user_message = ''hello'', request_context = None\<rparr> = Inr degraded_result"
  using parse_intent_never_raises
    [of "\<lambda>m c. Inl (HTTPError ''503'')" "\<lambda>m c. Inl (JSONDecodeError ''bad'')"
        "\<lparr>user_message = ''hello'', request_context = None\<rparr>"]
  by simp

lemma date_le_antisym: "date_le a b \<Longrightarrow> date_le b a \<Longrightarrow> a = b"
  by (cases a, cases b) (auto simp: date_le_def)

lemma in_window_today:
  "in_window u today today t \<longleftrightarrow>
     tx_created_by t = u \<and> tx_status t = TX_SUCCESS \<and> tx_created_on t = today"
  using date_le_antisym [of today "tx_created_on t"]
  by (auto simp: in_window_def date_le_def)

lemma in_window_month:
  "in_window u (today\<lparr>day := 1\<rparr>) today t \<longleftrightarrow>
     tx_created_by t = u \<and> tx_status t = TX_SUCCESS \<and>
     year (tx_created_on t) = year today \<and> month (tx_created_on t) = month today \<and>
     1 \<le> day (tx_created_on t) \<and> day (tx_created_on t) \<le> day today"
  by (auto simp: in_window_def date_le_def)

lemma sum_filter_window:
  "sum_list (map (\<lambda>t. case tx_cost t of None \<Rightarrow> 0 | Some c \<Rightarrow> c) (filter P db))
     = (\<Sum>t\<leftarrow>db. if P t then cost_of t else 0)"
  by (induction db) (simp_all add: cost_of_def)

lemma get_spending_today:
  "get_spending db u today today = round64 (spent_today db u today)"
  by (simp add: get_spending_def spent_today_def sum_filter_window in_window_today)

lemma get_spending_month:
  "get_spending db u (today\<lparr>day := 1\<rparr>) today = round64 (spent_this_month db u today)"
  unfolding get_spending_def spent_this_month_def sum_filter_window in_window_month ..

lemma spent_today_sample: "spent_today sample_ledger ''u1'' sample_today = 950"
  by code_simp

text \<open>
  C7, as the code has it. For the day and for the month, the budget check rejects exactly
  when the float sum of the spending and the requested amount is greater than the limit,
  where the spending is the total of the costs of the user's successful transactions of
  today (of the first of the month through today), converted to a float. With the daily
  limit 1000.0 and 950.0 spent today, 100.0 is rejected and 40.0 is allowed.
\<close>

theorem check_budget_rejects_iff_over_limit:
  "(\<not> fst (check_budget st db today u amount ''daily'')) =
     fgt (fadd (round64 (spent_today db u today)) amount) (DAILY_BUDGET_LIMIT st) \<and>
   (\<not> fst (check_budget st db today u amount ''monthly'')) =
     fgt (fadd (round64 (spent_this_month db u today)) amount) (MONTHLY_BUDGET_LIMIT st) \<and>
   spent_today sample_ledger ''u1'' sample_today = 950 \<and>
   DAILY_BUDGET_LIMIT default_settings = Finite 1000 \<and>
   fst (check_budget default_settings sample_ledger sample_today ''u1'' (Finite 100) ''daily'')
     = False \<and>
   fst (check_budget default_settings sample_ledger sample_today ''u1'' (Finite 40) ''daily'')
     = True"
proof -
  have d: "(\<not> fst (check_budget st db today u amount ''daily'')) =
     fgt (fadd (round64 (spent_today db u today)) amount) (DAILY_BUDGET_LIMIT st)"
    for st db today u amount
    by (simp add: check_budget_def Let_def get_spending_today)
  have m: "(\<not> fst (check_budget st db today u amount ''monthly'')) =
     fgt (fadd (round64 (spent_this_month db u today)) amount) (MONTHLY_BUDGET_LIMIT st)"
    by (simp add: check_budget_def Let_def get_spending_month [unfolded One_nat_def])
  have l: "DAILY_BUDGET_LIMIT default_settings = Finite 1000"
    by (simp add: default_settings_def)
  have r1: "fgt (fadd (round64 950) (Finite 100)) (Finite 1000) = True" by code_simp
  have r2: "fgt (fadd (round64 950) (Finite 40)) (Finite 1000) = False" by code_simp
  have c1: "fst (check_budget default_settings sample_ledger sample_today ''u1'' (Finite 100)
              ''daily'') = False"
    using d [of default_settings sample_ledger sample_today "''u1''" "Finite 100"]
    by (simp only: spent_today_sample l r1) simp
  have c2: "fst (check_budget default_settings sample_ledger sample_today ''u1'' (Finite 40)
              ''daily'') = True"
    using d [of default_settings sample_ledger sample_today "''u1''" "Finite 40"]
    by (simp only: spent_today_sample l r2) simp
  from d m l c1 c2 spent_today_sample show ?thesis by blast
qed

text \<open>
  The property as the specification words it fails: with 950.0 spent today and the limit
  1000.0, the amount 50 + 2^-45 is a float and takes the exact sum above the limit, but
  the float sum is 1000.0 and the check allows the request.
\<close>

theorem check_budget_rounding_counterexample:
  "round64 tiny_excess_amount = Finite tiny_excess_amount \<and>
   spent_today sample_ledger ''u1'' sample_today + tiny_excess_amount > 1000 \<and>
   DAILY_BUDGET_LIMIT default_settings = Finite 1000 \<and>
   fadd (round64 (spent_today sample_ledger ''u1'' sample_today)) (Finite tiny_excess_amount)
     = Finite 1000 \<and>
   fst (check_budget default_settings sample_ledger sample_today ''u1''
          (Finite tiny_excess_amount) ''daily'') = True"
  by code_simp





text \<open>
  C10. For a Communication agent task whose action is send, the estimation that the run
  wrapper uses requires approval whatever else the task and the context hold, and the
  wrapper writes that requirement into the result of every execution that returns.
\<close>

theorem send_requires_approval:
  "(map_of task ''action'' = Some (JStr ''send'') \<longrightarrow>
      est_requires_approval (estimate_cost_and_risk (CommunicationAgent str_of exec) task ctx)) \<and>
   (map_of task ''action'' = Some (JStr ''send'') \<and> truthy (dict_get task ''to'' JNull) \<longrightarrow>
      (\<forall>res. exec task ctx = Inr res \<longrightarrow>
         (\<exists>res'. run (CommunicationAgent str_of exec) elapsed validate task ctx = Inr res' \<and>
            result_requires_approval res')))"
  by (auto simp: CommunicationAgent_def comm_estimate_cost_and_risk_def dict_get_def run_def
      try_except_def comm_validate_input_def truthy_str_def Let_def)

theorem send_requires_approval_witness:
  "est_requires_approval
     (estimate_cost_and_risk (CommunicationAgent (\<lambda>v. ''?'') (\<lambda>t c. Inr sent_result))
        send_task None) \<and>
   (\<exists>res'. run (CommunicationAgent (\<lambda>v. ''?'') (\<lambda>t c. Inr sent_result)) 12 True send_task None
       = Inr res' \<and> result_requires_approval res')"
proof -
  have a: "map_of send_task ''action'' = Some (JStr ''send'')"
    by (simp add: send_task_def)
  have b: "truthy (dict_get send_task ''to'' JNull)"
    by (simp add: send_task_def dict_get_def)
  from send_requires_approval
    [of send_task "\<lambda>v. ''?''" "\<lambda>t c. Inr sent_result" None 12 True] a b
  show ?thesis by simp
qed

section \<open>Facts about the subtask loop\<close>

lemma map_of_dict_set: "map_of (dict_set d k v) k' = (if k' = k then Some v else map_of d k')"
  by (induction d) auto

lemma collect_dependency_results_None:
  "collect_dependency_results ex deps acc = None \<longleftrightarrow> (\<exists>d \<in> set deps. map_of ex d = None)"
  by (induction deps arbitrary: acc) (auto split: option.splits)

lemma run_subtask_blocked:
  assumes "d \<in> set (dependencies spec)" and "map_of (executed_results st) d = None"
  shows "run_subtask E ctx pid st i t spec =
           (t\<lparr>status := FAILED, error_message := Some ''Dependencies not met''\<rparr>,
            st\<lparr>all_succeeded := False\<rparr>)"
proof -
  have "collect_dependency_results (executed_results st) (dependencies spec) [] = None"
    using assms by (auto simp: collect_dependency_results_None)
  then show ?thesis by (simp add: run_subtask_def)
qed

lemma run_subtask_results:
  assumes "run_subtask E ctx pid st i t spec = (t', st')"
  shows "executed_results st' = executed_results st \<or>
         (\<exists>entry. executed_results st' = dict_set (executed_results st) i entry)"
  using assms
  by (auto simp: run_subtask_def Let_def split: option.splits sum.splits prod.splits)

lemma run_subtask_invoked:
  assumes "run_subtask E ctx pid st i t spec = (t', st')"
  shows "invoked st' = invoked st \<or> invoked st' = invoked st @ [i]"
  using assms
  by (auto simp: run_subtask_def Let_def split: option.splits sum.splits prod.splits)

lemma run_subtask_raises:
  assumes "run_subtask E ctx pid st i t spec = (t', st')"
    and "\<And>m c w. \<exists>e. fst (E i m c w) = Inl e"
  shows "executed_results st' = executed_results st"
proof (cases "collect_dependency_results (executed_results st) (dependencies spec) []")
  case None
  with assms(1) show ?thesis by (auto simp: run_subtask_def)
next
  case (Some deps)
  let ?c = "dict_set (dict_set (case ctx of None \<Rightarrow> [] | Some c \<Rightarrow> c)
              ''dependency_results'' (JDict deps)) ''parent_task_id'' (JStr pid)"
  obtain e where "fst (E i (description spec) ?c (loop_world st)) = Inl e"
    using assms(2) by blast
  then obtain w' where "E i (description spec) ?c (loop_world st) = (Inl e, w')"
    by (cases "E i (description spec) ?c (loop_world st)") auto
  with Some assms(1) show ?thesis by (auto simp: run_subtask_def Let_def)
qed

lemma run_subtask_other_key:
  assumes "run_subtask E ctx pid st i t spec = (t', st')" and "k \<noteq> i"
  shows "map_of (executed_results st') k = map_of (executed_results st) k"
  using run_subtask_results [OF assms(1)] assms(2) by (auto simp: map_of_dict_set)

lemma run_subtask_mono:
  assumes "run_subtask E ctx pid st i t spec = (t', st')"
    and "map_of (executed_results st') k = None"
  shows "map_of (executed_results st) k = None"
  using run_subtask_results [OF assms(1)] assms(2)
  by (auto simp: map_of_dict_set split: if_splits)

lemma run_subtasks_length:
  "run_subtasks E ctx pid st items = (rows, st') \<Longrightarrow> length rows = length items"
  by (induction items arbitrary: st rows) (auto split: prod.splits)

lemma run_subtasks_mono:
  "run_subtasks E ctx pid st items = (rows, st') \<Longrightarrow>
   map_of (executed_results st') k = None \<Longrightarrow> map_of (executed_results st) k = None"
proof (induction items arbitrary: st rows)
  case Nil
  then show ?case by simp
next
  case (Cons a items)
  obtain i t spec where a: "a = (i, t, spec)" by (cases a) auto
  obtain t1 st1 where s: "run_subtask E ctx pid st i t spec = (t1, st1)" by fastforce
  obtain rows1 where r: "run_subtasks E ctx pid st1 items = (rows1, st')"
    using Cons.prems(1) a s by (auto split: prod.splits)
  from Cons.IH [OF r Cons.prems(2)] have "map_of (executed_results st1) k = None" .
  then show ?case by (rule run_subtask_mono [OF s])
qed

lemma run_subtasks_other_key:
  "run_subtasks E ctx pid st items = (rows, st') \<Longrightarrow> k \<notin> fst ` set items \<Longrightarrow>
   map_of (executed_results st') k = map_of (executed_results st) k"
proof (induction items arbitrary: st rows)
  case Nil
  then show ?case by simp
next
  case (Cons a items)
  obtain i t spec where a: "a = (i, t, spec)" by (cases a) auto
  obtain t1 st1 where s: "run_subtask E ctx pid st i t spec = (t1, st1)" by fastforce
  obtain rows1 where r: "run_subtasks E ctx pid st1 items = (rows1, st')"
    using Cons.prems(1) a s by (auto split: prod.splits)
  have ki: "k \<noteq> i" and kr: "k \<notin> fst ` set items" using Cons.prems(2) a by auto
  from Cons.IH [OF r kr] run_subtask_other_key [OF s ki] show ?case by simp
qed

lemma run_subtasks_invoked:
  "run_subtasks E ctx pid st items = (rows, st') \<Longrightarrow>
   set (invoked st') \<subseteq> set (invoked st) \<union> fst ` set items"
proof (induction items arbitrary: st rows)
  case Nil
  then show ?case by simp
next
  case (Cons a items)
  obtain i t spec where a: "a = (i, t, spec)" by (cases a) auto
  obtain t1 st1 where s: "run_subtask E ctx pid st i t spec = (t1, st1)" by fastforce
  obtain rows1 where r: "run_subtasks E ctx pid st1 items = (rows1, st')"
    using Cons.prems(1) a s by (auto split: prod.splits)
  have "set (invoked st1) \<subseteq> set (invoked st) \<union> {i}"
    using run_subtask_invoked [OF s] by auto
  with Cons.IH [OF r] a show ?case by auto
qed

lemma run_subtasks_raises:
  assumes "\<And>m c w. \<exists>e. fst (E i m c w) = Inl e"
  shows "run_subtasks E ctx pid st items = (rows, st') \<Longrightarrow>
         map_of (executed_results st') i = map_of (executed_results st) i"
proof (induction items arbitrary: st rows)
  case Nil
  then show ?case by simp
next
  case (Cons a items)
  obtain i' t spec where a: "a = (i', t, spec)" by (cases a) auto
  obtain t1 st1 where s: "run_subtask E ctx pid st i' t spec = (t1, st1)" by fastforce
  obtain rows1 where r: "run_subtasks E ctx pid st1 items = (rows1, st')"
    using Cons.prems(1) a s by (auto split: prod.splits)
  have "map_of (executed_results st1) i = map_of (executed_results st) i"
  proof (cases "i' = i")
    case True
    with s assms show ?thesis by (simp add: run_subtask_raises)
  next
    case False
    then show ?thesis using run_subtask_other_key [OF s] by simp
  qed
  with Cons.IH [OF r] show ?case by simp
qed

lemma run_subtasks_blocked:
  "run_subtasks E ctx pid st items = (rows, st') \<Longrightarrow>
   map fst items = [k ..< k + length items] \<Longrightarrow>
   p < length items \<Longrightarrow> items ! p = (i, t, spec) \<Longrightarrow>
   d \<in> set (dependencies spec) \<Longrightarrow> map_of (executed_results st') d = None \<Longrightarrow>
   status (rows ! p) = FAILED \<and> error_message (rows ! p) = Some ''Dependencies not met'' \<and>
   (i \<in> set (invoked st') \<longrightarrow> i \<in> set (invoked st)) \<and>
   map_of (executed_results st') i = map_of (executed_results st) i"
proof (induction items arbitrary: st rows k p)
  case Nil
  then show ?case by simp
next
  case (Cons a items)
  obtain i0 t0 spec0 where a: "a = (i0, t0, spec0)" by (cases a) auto
  obtain t1 st1 where s: "run_subtask E ctx pid st i0 t0 spec0 = (t1, st1)" by fastforce
  obtain rows1 where r: "run_subtasks E ctx pid st1 items = (rows1, st')"
    and rows: "rows = t1 # rows1"
    using Cons.prems(1) a s by (auto split: prod.splits)
  have "[k ..< k + length (a # items)] = k # [Suc k ..< Suc k + length items]"
    by (simp add: upt_conv_Cons del: upt_Suc)
  with Cons.prems(2) a have i0: "i0 = k"
    and rest: "map fst items = [Suc k ..< Suc k + length items]"
    by auto
  have notin: "k \<notin> fst ` set items"
  proof -
    have "set (map fst items) = {Suc k ..< Suc k + length items}"
      unfolding rest by (rule set_upt)
    then have "fst ` set items = {Suc k ..< Suc k + length items}"
      by (simp only: set_map)
    then show ?thesis by simp
  qed
  show ?case
  proof (cases p)
    case 0
    with Cons.prems(4) a have eq: "i = i0" "t = t0" "spec = spec0" by auto
    have "map_of (executed_results st1) d = None"
      by (rule run_subtasks_mono [OF r Cons.prems(6)])
    then have d0: "map_of (executed_results st) d = None"
      by (rule run_subtask_mono [OF s])
    from run_subtask_blocked [OF _ d0, of spec0 E ctx pid i0 t0] Cons.prems(5) eq s
    have t1: "t1 = t0\<lparr>status := FAILED, error_message := Some ''Dependencies not met''\<rparr>"
      and st1: "st1 = st\<lparr>all_succeeded := False\<rparr>" by auto
    have inv: "set (invoked st') \<subseteq> set (invoked st1) \<union> fst ` set items"
      by (rule run_subtasks_invoked [OF r])
    have key: "map_of (executed_results st') k = map_of (executed_results st1) k"
      by (rule run_subtasks_other_key [OF r notin])
    show ?thesis
      using 0 rows t1 st1 inv key notin eq i0 by auto
  next
    case (Suc p')
    with Cons.prems(3,4) have p': "p' < length items" and it: "items ! p' = (i, t, spec)"
      by auto
    from Cons.IH [OF r rest p' it Cons.prems(5,6)]
    have ih: "status (rows1 ! p') = FAILED \<and>
              error_message (rows1 ! p') = Some ''Dependencies not met'' \<and>
              (i \<in> set (invoked st') \<longrightarrow> i \<in> set (invoked st1)) \<and>
              map_of (executed_results st') i = map_of (executed_results st1) i" .
    have "i \<in> fst ` set items" using p' it by (metis fst_conv image_eqI nth_mem)
    with notin have ik: "i \<noteq> k" by auto
    have inv1: "set (invoked st1) \<subseteq> set (invoked st) \<union> {i0}"
      using run_subtask_invoked [OF s] by auto
    have key1: "map_of (executed_results st1) i = map_of (executed_results st) i"
      using run_subtask_other_key [OF s] ik i0 by simp
    show ?thesis
      using ih Suc rows inv1 key1 ik i0 by auto
  qed
qed

lemma create_subtasks_indices:
  "map fst (create_subtasks new_id pid uid specs) = [0 ..< 0 + length (create_subtasks new_id pid uid specs)]"
  by (simp add: create_subtasks_def map_fst_enumerate comp_def case_prod_unfold)

lemma create_subtasks_nth:
  "j < length specs \<Longrightarrow>
   create_subtasks new_id pid uid specs ! j = (j, subtask_row new_id pid uid j (specs ! j), specs ! j)"
  by (simp add: create_subtasks_def nth_enumerate_eq)

lemma create_subtasks_length: "length (create_subtasks new_id pid uid specs) = length specs"
  by (simp add: create_subtasks_def)

text \<open>
  What the loop does with dependencies. A subtask is skipped exactly for a dependency
  that has recorded no result: it is then marked failed with the message Dependencies not
  met, \<open>execute_task\<close> is not called for it, and it records no result itself, so that
  its own dependents are skipped in turn. A subtask whose call of \<open>execute_task\<close>
  raises records no result.
\<close>

lemma run_subtasks_dependencies_not_met:
  assumes "run_subtasks E ctx pid (initial_loop_state w0) (create_subtasks new_id pid uid specs)
             = (rows, final)"
  shows "(\<forall>i. (\<forall>m c w. \<exists>e. fst (E i m c w) = Inl e) \<longrightarrow>
              map_of (executed_results final) i = None) \<and>
         (\<forall>j d. j < length specs \<and> d \<in> set (dependencies (specs ! j)) \<and>
                 map_of (executed_results final) d = None \<longrightarrow>
            status (rows ! j) = FAILED \<and>
            error_message (rows ! j) = Some ''Dependencies not met'' \<and>
            j \<notin> set (invoked final) \<and>
            map_of (executed_results final) j = None)"
proof (rule conjI)
  show "\<forall>i. (\<forall>m c w. \<exists>e. fst (E i m c w) = Inl e) \<longrightarrow>
            map_of (executed_results final) i = None"
  proof (intro allI impI)
    fix i
    assume "\<forall>m c w. \<exists>e. fst (E i m c w) = Inl e"
    then have "\<And>m c w. \<exists>e. fst (E i m c w) = Inl e" by blast
    from run_subtasks_raises [OF this assms]
    show "map_of (executed_results final) i = None"
      by (simp add: initial_loop_state_def)
  qed
next
  show "\<forall>j d. j < length specs \<and> d \<in> set (dependencies (specs ! j)) \<and>
                 map_of (executed_results final) d = None \<longrightarrow>
            status (rows ! j) = FAILED \<and>
            error_message (rows ! j) = Some ''Dependencies not met'' \<and>
            j \<notin> set (invoked final) \<and>
            map_of (executed_results final) j = None"
  proof (intro allI impI)
    fix j d
    assume h: "j < length specs \<and> d \<in> set (dependencies (specs ! j)) \<and>
               map_of (executed_results final) d = None"
    then have j: "j < length (create_subtasks new_id pid uid specs)"
      by (simp add: create_subtasks_length)
    have nth: "create_subtasks new_id pid uid specs ! j
                 = (j, subtask_row new_id pid uid j (specs ! j), specs ! j)"
      using h by (simp add: create_subtasks_nth)
    from run_subtasks_blocked [OF assms create_subtasks_indices j nth] h
    have "status (rows ! j) = FAILED \<and>
          error_message (rows ! j) = Some ''Dependencies not met'' \<and>
          (j \<in> set (invoked final) \<longrightarrow> j \<in> set (invoked (initial_loop_state w0))) \<and>
          map_of (executed_results final) j
            = map_of (executed_results (initial_loop_state w0)) j"
      by blast
    then show "status (rows ! j) = FAILED \<and>
              error_message (rows ! j) = Some ''Dependencies not met'' \<and>
              j \<notin> set (invoked final) \<and>
              map_of (executed_results final) j = None"
      by (auto simp: initial_loop_state_def)
  qed
qed

section \<open>Facts about the task executor\<close>

lemma require_task_names:
  "require module_globals [''logger'', ''IntentRequest''] = None"
  "require module_globals [''parse_intent''] = None"
  "require module_globals [''Task'', ''uuid4'', ''TaskPriority'', ''TaskStatus'']
     = Some (NameError ''TaskPriority'')"
  by code_simp+

lemma create_task_raises:
  "\<exists>e. fst (create_task module_globals env user_id message ctx w) = Inl e"
  by (simp add: create_task_def require_task_names split: sum.splits)

lemma execute_task_raises: "\<exists>e. fst (execute_task module_globals env w user_id message ctx) = Inl e"
proof -
  obtain r w1 where c: "create_task module_globals env user_id message ctx w = (r, w1)"
    by fastforce
  with create_task_raises [of env user_id message ctx w] obtain e where "r = Inl e" by auto
  with c show ?thesis by (simp add: execute_task_def)
qed

text \<open>
  C1. In the module as it is, no call of execute_task returns a task: the construction of
  the task row reads the name TaskPriority, which the module never imports. With that
  name bound, the path without approval and with a passing budget check raises at the
  audit entry that reads ip_address and user_agent, and with these bound too it raises
  at the agent_started event, which reads the local agent_type before its assignment.
\<close>

theorem execute_task_never_returns:
  "(\<forall>env w user_id message ctx.
      \<exists>e. fst (execute_task module_globals env w user_id message ctx) = Inl e) \<and>
   requires_approval (apply_business_rules plain_intent ''look into databases'') = False \<and>
   estimated_cost (apply_business_rules plain_intent ''look into databases'') = None \<and>
   fst (execute_task module_globals sample_env empty_world ''u1'' ''look into databases'' None)
     = Inl (NameError ''TaskPriority'') \<and>
   fst (execute_task (''TaskPriority'' # module_globals) sample_env empty_world ''u1''
          ''look into databases'' None)
     = Inl (NameError ''ip_address'') \<and>
   fst (execute_task completed_globals sample_env empty_world ''u1'' ''look into databases'' None)
     = Inl (UnboundLocalError ''agent_type'')"
proof -
  have a: "\<forall>env w user_id message ctx.
      \<exists>e. fst (execute_task module_globals env w user_id message ctx) = Inl e"
    using execute_task_raises by blast
  have b: "requires_approval (apply_business_rules plain_intent ''look into databases'') = False"
    by code_simp
  have c: "estimated_cost (apply_business_rules plain_intent ''look into databases'') = None"
    by code_simp
  have d: "fst (execute_task module_globals sample_env empty_world ''u1''
                  ''look into databases'' None) = Inl (NameError ''TaskPriority'')"
    by code_simp
  have e: "fst (execute_task (''TaskPriority'' # module_globals) sample_env empty_world ''u1''
                  ''look into databases'' None) = Inl (NameError ''ip_address'')"
    by code_simp
  have f: "fst (execute_task completed_globals sample_env empty_world ''u1''
                  ''look into databases'' None) = Inl (UnboundLocalError ''agent_type'')"
    by code_simp
  from a b c d e f show ?thesis by blast
qed

text \<open>
  The branch that stores a failed agent result, taken on its own in a namespace that
  binds the names it reads: the error text of the agent goes to the task as it is, and the
  later commit persists the task unchanged. In the module's own namespace the branch
  raises at its audit entry.
\<close>

lemma require_completed:
  "require completed_globals [''logger''] = None"
  "require completed_globals [''TaskStatus'', ''datetime''] = None"
  "require completed_globals [''PolicyService''] = None"
  "require completed_globals [''TaskExecutor'', ''AuditEventType'', ''ip_address'', ''user_agent'']
     = None"
  "require completed_globals [''event_service''] = None"
  "require completed_globals [''Transaction'', ''uuid4'', ''TransactionType'',
     ''TransactionStatus'', ''TaskStatus''] = None"
  "require completed_globals [''BudgetService''] = None"
  by code_simp+

lemma require_module:
  "require module_globals [''logger''] = None"
  "require module_globals [''TaskStatus'', ''datetime''] = None"
  "require module_globals [''PolicyService''] = None"
  "require module_globals [''TaskExecutor'', ''AuditEventType'', ''ip_address'', ''user_agent'']
     = Some (NameError ''ip_address'')"
  "require module_globals [''logger'', ''TaskStatus''] = None"
  "require module_globals [''datetime''] = None"
  by code_simp+

lemma store_failure_raw:
  "store_failure completed_globals env user_id kind res t w = (r, t', w') \<Longrightarrow>
   r = Inr () \<and> error_message t' = error res \<and> status t' = FAILED"
  by (auto simp: store_failure_def require_completed Let_def)

lemma execute_agent_step_raw:
  "fst (execute_agent_step completed_globals env user_id kind
          (Inr (res\<lparr>success := False\<rparr>)) t w) = Inr () \<and>
   error_message (fst (snd (execute_agent_step completed_globals env user_id kind
          (Inr (res\<lparr>success := False\<rparr>)) t w))) = error res"
proof -
  obtain r t' w' where s: "store_failure completed_globals env user_id kind
                             (res\<lparr>success := False\<rparr>) t w = (r, t', w')"
    using prod_cases3 by blast
  from store_failure_raw [OF s] s show ?thesis
    by (simp add: execute_agent_step_def agent_try_body_def require_completed)
qed

lemma record_transaction_step_commits:
  "record_transaction_step completed_globals env user_id message intent_result kind t w
     = (r, t', w') \<Longrightarrow>
   r = Inr () \<and> t' = t \<and> persisted_task w' = Some t"
  by (auto simp: record_transaction_step_def require_completed Let_def log_audit_def
      commit_def split: if_splits)

lemma execute_agent_step_module:
  "fst (execute_agent_step module_globals env user_id kind
          (Inr (res\<lparr>success := False\<rparr>)) t w) = Inl (NameError ''ip_address'')"
  by (simp add: execute_agent_step_def agent_try_body_def store_failure_def
      agent_except_handler_def require_module Let_def)

lemma sanitize_error_message_sample:
  "py_in ''postgresql://admin:hunter2'' raw_error \<and>
   sanitize_error_message raw_error = ''db down: [DB_CONNECTION_REDACTED]''"
  by code_simp

text \<open>
  Whatever the namespace, step 5 never hands an agent over: the \<open>agent_started\<close> event
  reads the local \<open>agent_type\<close> before its assignment, so the agent is never run and
  the branches that store its result are never entered by a call of \<open>execute_task\<close>.
\<close>

lemma start_execution_step_never_continues:
  "fst (start_execution_step ns env user_id intent_result t w) \<noteq> Inr (Continue x)"
  by (simp add: start_execution_step_def local_var_def Let_def split: option.splits)

section \<open>Facts about the orchestrator\<close>




end
